theory Spec2Isabelle
  imports Main
begin

section \<open>C arithmetic\<close>

text \<open>
  The C \<^verbatim>\<open>int\<close> values of the sources are modelled as \<^typ>\<open>int\<close>; none of the
  properties below depends on wrap-around (signed overflow is undefined in C). Division and
  remainder truncate towards zero in C, unlike \<open>div\<close> and \<open>mod\<close> of HOL, so they are
  written out.
\<close>

definition c_div :: "int \<Rightarrow> int \<Rightarrow> int" where
  "c_div a b = sgn a * sgn b * (\<bar>a\<bar> div \<bar>b\<bar>)"

definition c_rem :: "int \<Rightarrow> int \<Rightarrow> int" where
  "c_rem a b = sgn a * (\<bar>a\<bar> mod \<bar>b\<bar>)"

datatype failure = AssertionFailed | Aborted | NullFunctionCalled

section \<open>C float: binary32 arithmetic\<close>

text \<open>
  A C \<^verbatim>\<open>float\<close> is an IEEE 754 binary32 value, and an expression of type float is
  evaluated in binary32 with rounding to nearest, ties to even (\<^verbatim>\<open>FLT_EVAL_METHOD\<close> 0, as
  on x86-64). \<open>Finite s e f\<close> has the sign bit \<open>s\<close>, the exponent field \<open>e\<close> (0 to 254)
  and the fraction field \<open>f\<close> (below \<open>2 ^ 23\<close>); the NaNs are not told apart. Every finite
  value is a whole multiple of \<open>2 ^ -149\<close>, and \<open>f32_units\<close> is that multiple.
\<close>

datatype float32 = Finite bool nat nat | Infinity bool | NaN

fun bit_length :: "int \<Rightarrow> int" where
  "bit_length n = (if n \<le> 0 then 0 else 1 + bit_length (n div 2))"

text \<open>
  \<open>f32_pack s n e\<close> is the value \<open>n * 2 ^ e\<close> with sign \<open>s\<close> rounded to binary32: \<open>q\<close>
  is the exponent of the last kept bit (at least -149, where the subnormals live), \<open>m\<close>
  the significand rounded to nearest, ties to even; a significand that rounds up to
  \<open>2 ^ 24\<close> moves to the next exponent, and an exponent past 254 gives infinity.
\<close>

definition f32_pack :: "bool \<Rightarrow> int \<Rightarrow> int \<Rightarrow> float32" where
  "f32_pack s n e =
     (if n \<le> 0 then Finite s 0 0
      else
        let q = max (e + bit_length n - 24) (- 149);
            m = (if q \<le> e then n * 2 ^ nat (e - q)
                 else
                   let d = 2 ^ nat (q - e); m0 = n div d; r = n mod d
                   in if d < 2 * r \<or> (2 * r = d \<and> odd m0) then m0 + 1 else m0);
            q = (if m = 2 ^ 24 then q + 1 else q);
            m = (if m = 2 ^ 24 then 2 ^ 23 else m)
        in if m < 2 ^ 23 then Finite s 0 (nat m)
           else if 255 \<le> q + 150 then Infinity s
           else Finite s (nat (q + 150)) (nat (m - 2 ^ 23)))"

fun f32_mag :: "float32 \<Rightarrow> int" where
  "f32_mag (Finite s e f) = (if e = 0 then int f else (2 ^ 23 + int f) * 2 ^ (e - 1))"
| "f32_mag x = 0"

fun f32_units :: "float32 \<Rightarrow> int" where
  "f32_units (Finite s e f) = (if s then - f32_mag (Finite s e f) else f32_mag (Finite s e f))"
| "f32_units x = 0"

text \<open>The conversion of an int to float, and the constant \<^verbatim>\<open>0.0f\<close>.\<close>

definition c_float_of_int :: "int \<Rightarrow> float32" where
  "c_float_of_int n = f32_pack (n < 0) \<bar>n\<bar> 0"

definition f32_zero :: float32 where
  "f32_zero = Finite False 0 0"

text \<open>
  Sum, difference, product and quotient: the special cases of IEEE 754, and otherwise the
  exact result rounded once. An exact zero sum has the sign both operands share, else it
  is positive. The quotient is taken to more than 27 bits, with one more bit set when the
  division leaves a remainder, so that rounding it is rounding the exact quotient.
\<close>

fun f32_add :: "float32 \<Rightarrow> float32 \<Rightarrow> float32" where
  "f32_add NaN y = NaN"
| "f32_add x NaN = NaN"
| "f32_add (Infinity s) (Infinity t) = (if s = t then Infinity s else NaN)"
| "f32_add (Infinity s) (Finite t e f) = Infinity s"
| "f32_add (Finite s e f) (Infinity t) = Infinity t"
| "f32_add (Finite s e f) (Finite t e' f') =
     (let u = f32_units (Finite s e f) + f32_units (Finite t e' f')
      in if u = 0 then Finite (s \<and> t) 0 0 else f32_pack (u < 0) \<bar>u\<bar> (- 149))"

fun f32_sub :: "float32 \<Rightarrow> float32 \<Rightarrow> float32" where
  "f32_sub NaN y = NaN"
| "f32_sub x NaN = NaN"
| "f32_sub (Infinity s) (Infinity t) = (if s = t then NaN else Infinity s)"
| "f32_sub (Infinity s) (Finite t e f) = Infinity s"
| "f32_sub (Finite s e f) (Infinity t) = Infinity (\<not> t)"
| "f32_sub (Finite s e f) (Finite t e' f') =
     (let u = f32_units (Finite s e f) - f32_units (Finite t e' f')
      in if u = 0 then Finite (s \<and> \<not> t) 0 0 else f32_pack (u < 0) \<bar>u\<bar> (- 149))"

fun f32_mul :: "float32 \<Rightarrow> float32 \<Rightarrow> float32" where
  "f32_mul NaN y = NaN"
| "f32_mul x NaN = NaN"
| "f32_mul (Infinity s) (Infinity t) = Infinity (s \<noteq> t)"
| "f32_mul (Infinity s) (Finite t e f) =
     (if f32_mag (Finite t e f) = 0 then NaN else Infinity (s \<noteq> t))"
| "f32_mul (Finite s e f) (Infinity t) =
     (if f32_mag (Finite s e f) = 0 then NaN else Infinity (s \<noteq> t))"
| "f32_mul (Finite s e f) (Finite t e' f') =
     f32_pack (s \<noteq> t) (f32_mag (Finite s e f) * f32_mag (Finite t e' f')) (- 298)"

fun f32_div :: "float32 \<Rightarrow> float32 \<Rightarrow> float32" where
  "f32_div NaN y = NaN"
| "f32_div x NaN = NaN"
| "f32_div (Infinity s) (Infinity t) = NaN"
| "f32_div (Infinity s) (Finite t e f) = Infinity (s \<noteq> t)"
| "f32_div (Finite s e f) (Infinity t) = Finite (s \<noteq> t) 0 0"
| "f32_div (Finite s e f) (Finite t e' f') =
     (let a = f32_mag (Finite s e f); b = f32_mag (Finite t e' f')
      in if b = 0 then (if a = 0 then NaN else Infinity (s \<noteq> t))
         else
           let n = a * 2 ^ 305; q = n div b; r = n mod b
           in f32_pack (s \<noteq> t) (2 * q + (if r = 0 then 0 else 1)) (- 306))"

text \<open>
  The comparisons \<^verbatim>\<open><\<close>, \<^verbatim>\<open>>=\<close> and \<^verbatim>\<open>==\<close>: false when an operand is NaN, an
  infinity beyond every finite value, the two zeros equal.
\<close>

fun f32_key :: "float32 \<Rightarrow> int option" where
  "f32_key NaN = None"
| "f32_key (Infinity s) = Some (if s then - (2 ^ 300) else 2 ^ 300)"
| "f32_key (Finite s e f) = Some (f32_units (Finite s e f))"

definition f32_lt :: "float32 \<Rightarrow> float32 \<Rightarrow> bool" where
  "f32_lt x y = (case (f32_key x, f32_key y) of (Some a, Some b) \<Rightarrow> a < b | _ \<Rightarrow> False)"

definition f32_ge :: "float32 \<Rightarrow> float32 \<Rightarrow> bool" where
  "f32_ge x y = (case (f32_key x, f32_key y) of (Some a, Some b) \<Rightarrow> b \<le> a | _ \<Rightarrow> False)"

definition f32_eq :: "float32 \<Rightarrow> float32 \<Rightarrow> bool" where
  "f32_eq x y = (case (f32_key x, f32_key y) of (Some a, Some b) \<Rightarrow> a = b | _ \<Rightarrow> False)"

text \<open>
  The cast \<^verbatim>\<open>(int)\<close> truncates towards zero. For a value outside the range of int, an
  infinity or a NaN the cast is undefined in C; the result taken here is the one the
  conversion instruction of x86-64 gives, \<^verbatim>\<open>INT_MIN\<close>.
\<close>

fun c_int_of_float :: "float32 \<Rightarrow> int" where
  "c_int_of_float (Finite s e f) =
     (let t = f32_mag (Finite s e f) div 2 ^ 149;
          v = (if s then - t else t)
      in if - (2 ^ 31) \<le> v \<and> v < 2 ^ 31 then v else - (2 ^ 31))"
| "c_int_of_float x = - (2 ^ 31)"

section \<open>Unpack alignment (utils.c, get_alignment)\<close>

definition get_alignment :: "int \<Rightarrow> int" where
  "get_alignment stride =
     (if c_rem stride 8 = 0 then 8
      else if c_rem stride 4 = 0 then 4
      else if c_rem stride 2 = 0 then 2
      else 1)"

section \<open>The graphics context\<close>

text \<open>
  \<^verbatim>\<open>GL *gl\<close> is a table of entry points plus capability bits. The fields the sources
  test are kept: \<^verbatim>\<open>gl->es\<close>, the bit \<^verbatim>\<open>gl->mpgl_caps & MPGL_CAP_ROW_LENGTH\<close>, and whether
  the three vertex-array entry points are non-NULL. Every other entry point is taken to be
  present.
\<close>

record GL =
  GL_es :: bool
  GL_cap_row_length :: bool
  GL_has_GenVertexArrays :: bool
  GL_has_BindVertexArray :: bool
  GL_has_DeleteVertexArrays :: bool

type_synonym glenum = int
type_synonym rect = "int \<times> int \<times> int \<times> int"

datatype gl_cap = GL_BLEND | GL_CULL_FACE | GL_DEPTH_TEST | GL_SCISSOR_TEST

datatype gl_pname =
    GL_ACTIVE_TEXTURE | GL_CURRENT_PROGRAM | GL_TEXTURE_BINDING_2D
  | GL_ARRAY_BUFFER_BINDING | GL_VERTEX_ARRAY_BINDING
  | GL_BLEND_SRC_RGB | GL_BLEND_DST_RGB | GL_BLEND_SRC_ALPHA | GL_BLEND_DST_ALPHA
  | GL_BLEND_EQUATION_RGB | GL_BLEND_EQUATION_ALPHA

datatype gl_rect_pname = GL_VIEWPORT | GL_SCISSOR_BOX

datatype gl_store_pname = GL_UNPACK_ALIGNMENT | GL_UNPACK_ROW_LENGTH | GL_PACK_ALIGNMENT

datatype gl_buffer_target = GL_ARRAY_BUFFER | GL_ELEMENT_ARRAY_BUFFER

datatype gl_read_source = GL_COLOR_ATTACHMENT0 | GL_FRONT

text \<open>
  One constructor per entry point the sources call. Pointer arguments are recorded as
  offsets: the source pointer of \<open>TexSubImage2D\<close> and the destination pointer of
  \<open>ReadPixels\<close> as a byte offset from the pointer the caller passed in, the index pointer
  of \<open>DrawElements\<close> as an element offset, the payload of \<open>BufferData\<close> as its element
  count.
\<close>

datatype glcall =
    PixelStorei gl_store_pname int
  | TexSubImage2D glenum int int int int int glenum glenum int
  | BindFramebuffer int
  | ReadBuffer gl_read_source
  | ReadPixels int int int int glenum glenum int
  | GetIntegerv gl_pname
  | GetIntegerv4 gl_rect_pname
  | IsEnabled gl_cap
  | Enable gl_cap
  | Disable gl_cap
  | ActiveTexture glenum
  | UseProgram int
  | BindTexture int
  | BindBuffer gl_buffer_target int
  | BufferData gl_buffer_target int
  | GenVertexArrays
  | BindVertexArray int
  | DeleteVertexArrays int
  | EnableVertexAttribArray int
  | DisableVertexAttribArray int
  | VertexAttribPointer int int glenum bool int int
  | BlendEquation glenum
  | BlendFunc glenum glenum
  | BlendEquationSeparate glenum glenum
  | BlendFuncSeparate glenum glenum glenum glenum
  | Viewport int int int int
  | Scissor int int int int
  | GetUniformLocation int string
  | Uniform1i int int
  | UniformMatrix4fv int "float32 list"
  | DrawElements int int
  | DrawArrays glenum int

text \<open>
  The part of the context state the sources read or write. Texture bindings are kept per
  texture unit and attribute enables and the element-array binding per vertex-array object,
  as in OpenGL; \<open>gl_calls\<close> is the log of every entry point called, oldest first.
\<close>

record gl_state =
  gl_active_unit :: nat
  gl_program :: int
  gl_texture_2d :: "nat \<Rightarrow> int"
  gl_array_buffer :: int
  gl_vertex_array :: int
  gl_vertex_arrays :: "int list"
  gl_element_buffer :: "int \<Rightarrow> int"
  gl_attrib_enabled :: "int \<Rightarrow> int set"
  gl_viewport :: rect
  gl_scissor_box :: rect
  gl_blend_src_rgb :: glenum
  gl_blend_dst_rgb :: glenum
  gl_blend_src_alpha :: glenum
  gl_blend_dst_alpha :: glenum
  gl_blend_equation_rgb :: glenum
  gl_blend_equation_alpha :: glenum
  gl_enabled :: "gl_cap \<Rightarrow> bool"
  gl_unpack_alignment :: int
  gl_unpack_row_length :: int
  gl_pack_alignment :: int
  gl_framebuffer :: int
  gl_read_buffer :: gl_read_source
  gl_uniform_location :: "int \<Rightarrow> string \<Rightarrow> int"
  gl_calls :: "glcall list"

definition GL_TEXTURE0 :: glenum where "GL_TEXTURE0 = 0x84C0"
definition GL_TEXTURE_2D :: glenum where "GL_TEXTURE_2D = 0x0DE1"
definition GL_FUNC_ADD :: glenum where "GL_FUNC_ADD = 0x8006"
definition GL_SRC_ALPHA :: glenum where "GL_SRC_ALPHA = 0x0302"
definition GL_ONE_MINUS_SRC_ALPHA :: glenum where "GL_ONE_MINUS_SRC_ALPHA = 0x0303"
definition GL_FLOAT :: glenum where "GL_FLOAT = 0x1406"
definition GL_INT :: glenum where "GL_INT = 0x1404"
definition GL_UNSIGNED_BYTE :: glenum where "GL_UNSIGNED_BYTE = 0x1401"

definition fresh_name :: "int list \<Rightarrow> int" where
  "fresh_name ns = 1 + fold max ns 0"

text \<open>
  The effect of one call on the state, after the OpenGL specification: a call with an
  invalid value (negative viewport or scissor size, an unpack alignment outside 1, 2, 4, 8,
  a negative row length, a texture unit below \<open>GL_TEXTURE0\<close>, a negative attribute index)
  raises a GL error and leaves the state as it was. Object names are not validated.
  Deleting the bound vertex array reverts the binding to 0. Queries, uploads, read-backs
  and draws do not change the fields modelled here.
\<close>

fun gl_effect :: "glcall \<Rightarrow> gl_state \<Rightarrow> gl_state" where
  "gl_effect (PixelStorei GL_UNPACK_ALIGNMENT v) s =
     (if v \<in> {1, 2, 4, 8} then s\<lparr>gl_unpack_alignment := v\<rparr> else s)"
| "gl_effect (PixelStorei GL_PACK_ALIGNMENT v) s =
     (if v \<in> {1, 2, 4, 8} then s\<lparr>gl_pack_alignment := v\<rparr> else s)"
| "gl_effect (PixelStorei GL_UNPACK_ROW_LENGTH v) s =
     (if 0 \<le> v then s\<lparr>gl_unpack_row_length := v\<rparr> else s)"
| "gl_effect (BindFramebuffer f) s = s\<lparr>gl_framebuffer := f\<rparr>"
| "gl_effect (ReadBuffer b) s = s\<lparr>gl_read_buffer := b\<rparr>"
| "gl_effect (Enable c) s = s\<lparr>gl_enabled := (gl_enabled s)(c := True)\<rparr>"
| "gl_effect (Disable c) s = s\<lparr>gl_enabled := (gl_enabled s)(c := False)\<rparr>"
| "gl_effect (ActiveTexture e) s =
     (if GL_TEXTURE0 \<le> e then s\<lparr>gl_active_unit := nat (e - GL_TEXTURE0)\<rparr> else s)"
| "gl_effect (UseProgram p) s = s\<lparr>gl_program := p\<rparr>"
| "gl_effect (BindTexture t) s =
     s\<lparr>gl_texture_2d := (gl_texture_2d s)(gl_active_unit s := t)\<rparr>"
| "gl_effect (BindBuffer GL_ARRAY_BUFFER b) s = s\<lparr>gl_array_buffer := b\<rparr>"
| "gl_effect (BindBuffer GL_ELEMENT_ARRAY_BUFFER b) s =
     s\<lparr>gl_element_buffer := (gl_element_buffer s)(gl_vertex_array s := b)\<rparr>"
| "gl_effect GenVertexArrays s =
     s\<lparr>gl_vertex_arrays := fresh_name (gl_vertex_arrays s) # gl_vertex_arrays s\<rparr>"
| "gl_effect (BindVertexArray a) s = s\<lparr>gl_vertex_array := a\<rparr>"
| "gl_effect (DeleteVertexArrays a) s =
     (if a = 0 then s
      else s\<lparr>gl_vertex_arrays := removeAll a (gl_vertex_arrays s),
             gl_attrib_enabled := (gl_attrib_enabled s)(a := {}),
             gl_element_buffer := (gl_element_buffer s)(a := 0),
             gl_vertex_array := (if gl_vertex_array s = a then 0 else gl_vertex_array s)\<rparr>)"
| "gl_effect (EnableVertexAttribArray i) s =
     (if 0 \<le> i
      then s\<lparr>gl_attrib_enabled := (gl_attrib_enabled s)
                (gl_vertex_array s := insert i (gl_attrib_enabled s (gl_vertex_array s)))\<rparr>
      else s)"
| "gl_effect (DisableVertexAttribArray i) s =
     (if 0 \<le> i
      then s\<lparr>gl_attrib_enabled := (gl_attrib_enabled s)
                (gl_vertex_array s := gl_attrib_enabled s (gl_vertex_array s) - {i})\<rparr>
      else s)"
| "gl_effect (BlendEquation e) s =
     s\<lparr>gl_blend_equation_rgb := e, gl_blend_equation_alpha := e\<rparr>"
| "gl_effect (BlendEquationSeparate e a) s =
     s\<lparr>gl_blend_equation_rgb := e, gl_blend_equation_alpha := a\<rparr>"
| "gl_effect (BlendFunc sf df) s =
     s\<lparr>gl_blend_src_rgb := sf, gl_blend_dst_rgb := df,
       gl_blend_src_alpha := sf, gl_blend_dst_alpha := df\<rparr>"
| "gl_effect (BlendFuncSeparate sr dr sa da) s =
     s\<lparr>gl_blend_src_rgb := sr, gl_blend_dst_rgb := dr,
       gl_blend_src_alpha := sa, gl_blend_dst_alpha := da\<rparr>"
| "gl_effect (Viewport vx vy vw vh) s =
     (if 0 \<le> vw \<and> 0 \<le> vh then s\<lparr>gl_viewport := (vx, vy, vw, vh)\<rparr> else s)"
| "gl_effect (Scissor vx vy vw vh) s =
     (if 0 \<le> vw \<and> 0 \<le> vh then s\<lparr>gl_scissor_box := (vx, vy, vw, vh)\<rparr> else s)"
| "gl_effect _ s = s"

text \<open>Calling an entry point: its effect, and one more entry in the log.\<close>

definition gl_do :: "glcall \<Rightarrow> gl_state \<Rightarrow> gl_state" where
  "gl_do c s = (gl_effect c s)\<lparr>gl_calls := gl_calls s @ [c]\<rparr>"

text \<open>What the queries return.\<close>

fun gl_get :: "gl_pname \<Rightarrow> gl_state \<Rightarrow> int" where
  "gl_get GL_ACTIVE_TEXTURE s = GL_TEXTURE0 + int (gl_active_unit s)"
| "gl_get GL_CURRENT_PROGRAM s = gl_program s"
| "gl_get GL_TEXTURE_BINDING_2D s = gl_texture_2d s (gl_active_unit s)"
| "gl_get GL_ARRAY_BUFFER_BINDING s = gl_array_buffer s"
| "gl_get GL_VERTEX_ARRAY_BINDING s = gl_vertex_array s"
| "gl_get GL_BLEND_SRC_RGB s = gl_blend_src_rgb s"
| "gl_get GL_BLEND_DST_RGB s = gl_blend_dst_rgb s"
| "gl_get GL_BLEND_SRC_ALPHA s = gl_blend_src_alpha s"
| "gl_get GL_BLEND_DST_ALPHA s = gl_blend_dst_alpha s"
| "gl_get GL_BLEND_EQUATION_RGB s = gl_blend_equation_rgb s"
| "gl_get GL_BLEND_EQUATION_ALPHA s = gl_blend_equation_alpha s"

fun gl_get4 :: "gl_rect_pname \<Rightarrow> gl_state \<Rightarrow> rect" where
  "gl_get4 GL_VIEWPORT s = gl_viewport s"
| "gl_get4 GL_SCISSOR_BOX s = gl_scissor_box s"

definition gl_GetIntegerv :: "gl_pname \<Rightarrow> gl_state \<Rightarrow> int \<times> gl_state" where
  "gl_GetIntegerv p s = (gl_get p s, gl_do (GetIntegerv p) s)"

definition gl_GetIntegerv4 :: "gl_rect_pname \<Rightarrow> gl_state \<Rightarrow> rect \<times> gl_state" where
  "gl_GetIntegerv4 p s = (gl_get4 p s, gl_do (GetIntegerv4 p) s)"

definition gl_IsEnabled :: "gl_cap \<Rightarrow> gl_state \<Rightarrow> bool \<times> gl_state" where
  "gl_IsEnabled c s = (gl_enabled s c, gl_do (IsEnabled c) s)"

definition gl_GetUniformLocation :: "int \<Rightarrow> string \<Rightarrow> gl_state \<Rightarrow> int \<times> gl_state" where
  "gl_GetUniformLocation p n s = (gl_uniform_location s p n, gl_do (GetUniformLocation p n) s)"

section \<open>Texture upload (utils.c, gl_upload_tex)\<close>

text \<open>
  The slice loop \<^verbatim>\<open>for (; y + slice <= y_max; y += slice)\<close>. It returns the final
  \<open>y\<close>, the final data offset and the state. The loop is entered with \<open>slice\<close> equal to
  \<open>h\<close> or to 1, after \<open>h \<le> 0\<close> has been excluded; the guard \<open>0 < slice\<close> records that
  and makes the recursion well-founded.
\<close>

function upload_slices ::
  "glenum \<Rightarrow> int \<Rightarrow> int \<Rightarrow> glenum \<Rightarrow> glenum \<Rightarrow> int \<Rightarrow> int \<Rightarrow> int \<Rightarrow> int \<Rightarrow> int \<Rightarrow> gl_state
     \<Rightarrow> int \<times> int \<times> gl_state" where
  "upload_slices target x w format type stride slice y_max y data s =
     (if 0 < slice \<and> y + slice \<le> y_max
      then upload_slices target x w format type stride slice y_max (y + slice)
             (data + stride * slice)
             (gl_do (TexSubImage2D target 0 x y w slice format type data) s)
      else (y, data, s))"
  by pat_completeness auto
termination
  by (relation "measure (\<lambda>(target, x, w, format, type, stride, slice, y_max, y, data, s).
                  nat (y_max - y))") auto

text \<open>
  \<^verbatim>\<open>gl_bytes_per_pixel\<close> lives in formats.c and is a parameter here. The data pointer is
  the byte offset from \<^verbatim>\<open>dataptr\<close>.
\<close>

definition gl_upload_tex ::
  "GL \<Rightarrow> (glenum \<Rightarrow> glenum \<Rightarrow> int) \<Rightarrow> glenum \<Rightarrow> glenum \<Rightarrow> glenum \<Rightarrow> int
     \<Rightarrow> int \<Rightarrow> int \<Rightarrow> int \<Rightarrow> int \<Rightarrow> gl_state \<Rightarrow> failure + gl_state" where
  "gl_upload_tex gl gl_bytes_per_pixel target format type stride x y w h s =
     (let bpp = gl_bytes_per_pixel format type;
          y_max = y + h
      in if w \<le> 0 \<or> h \<le> 0 \<or> bpp = 0 then Inr s
         else if \<not> 0 < stride then Inl AssertionFailed
         else
           let s = gl_do (PixelStorei GL_UNPACK_ALIGNMENT (get_alignment stride)) s;
               slice = h;
               s = (if GL_cap_row_length gl
                    then gl_do (PixelStorei GL_UNPACK_ROW_LENGTH (c_div stride bpp)) s
                    else s);
               slice = (if \<not> GL_cap_row_length gl \<and> stride \<noteq> bpp * w then 1 else slice);
               (y, data, s) = upload_slices target x w format type stride slice y_max y 0 s;
               s = (if y < y_max
                    then gl_do (TexSubImage2D target 0 x y w (y_max - y) format type data) s
                    else s);
               s = (if GL_cap_row_length gl
                    then gl_do (PixelStorei GL_UNPACK_ROW_LENGTH 0) s
                    else s)
           in Inr (gl_do (PixelStorei GL_UNPACK_ALIGNMENT 4) s))"

section \<open>Framebuffer read-back (utils.c, gl_read_fbo_contents)\<close>

text \<open>
  The line loop \<^verbatim>\<open>for (int y = 0; y < h; y++)\<close>. The destination pointer of each
  \<open>ReadPixels\<close> is recorded as its byte offset from \<^verbatim>\<open>dst\<close>.
\<close>

function read_lines ::
  "glenum \<Rightarrow> glenum \<Rightarrow> int \<Rightarrow> int \<Rightarrow> int \<Rightarrow> int \<Rightarrow> int \<Rightarrow> int \<Rightarrow> gl_state \<Rightarrow> gl_state" where
  "read_lines format type w h dst_stride y1 dir y s =
     (if y < h
      then read_lines format type w h dst_stride y1 dir (y + 1)
             (gl_do (ReadPixels 0 y w 1 format type ((y1 + dir * y) * dst_stride)) s)
      else s)"
  by pat_completeness auto
termination
  by (relation "measure (\<lambda>(format, type, w, h, dst_stride, y1, dir, y, s). nat (h - y))") auto

definition gl_read_fbo_contents ::
  "GL \<Rightarrow> int \<Rightarrow> int \<Rightarrow> glenum \<Rightarrow> glenum \<Rightarrow> int \<Rightarrow> int \<Rightarrow> int \<Rightarrow> gl_state
     \<Rightarrow> failure + bool \<times> gl_state" where
  "gl_read_fbo_contents gl fbo dir format type w h dst_stride s =
     (if \<not> (dir = 1 \<or> dir = -1) then Inl AssertionFailed
      else if fbo = 0 \<and> GL_es gl then Inr (False, s)
      else
        let s = gl_do (BindFramebuffer fbo) s;
            obj = (if fbo \<noteq> 0 then GL_COLOR_ATTACHMENT0 else GL_FRONT);
            s = gl_do (PixelStorei GL_PACK_ALIGNMENT 1) s;
            s = gl_do (ReadBuffer obj) s;
            y1 = (if dir > 0 then 0 else h);
            s = read_lines format type w h dst_stride y1 dir 0 s;
            s = gl_do (PixelStorei GL_PACK_ALIGNMENT 4) s;
            s = gl_do (BindFramebuffer 0) s
        in Inr (True, s))"

section \<open>Vertex attribute binding (utils.c, gl_vao_*)\<close>

text \<open>
  \<^verbatim>\<open>enum ra_vartype\<close> and \<^verbatim>\<open>struct ra_renderpass_input\<close> are declared in ra.h; the
  fields read by utils.c are kept. \<^verbatim>\<open>vao->entries\<close> is a pointer to an array and is
  modelled as the function from index to element.
\<close>

datatype ra_vartype =
    RA_VARTYPE_INVALID | RA_VARTYPE_INT | RA_VARTYPE_FLOAT | RA_VARTYPE_TEX
  | RA_VARTYPE_IMG_W | RA_VARTYPE_BYTE_UNORM | RA_VARTYPE_BUF_RO | RA_VARTYPE_BUF_RW

record ra_renderpass_input =
  rpi_type :: ra_vartype
  rpi_dim_v :: int
  rpi_dim_m :: int
  rpi_offset :: int

record gl_vao =
  vao_gl :: GL
  vao_vao :: int
  vao_buffer :: int
  vao_stride :: int
  vao_entries :: "int \<Rightarrow> ra_renderpass_input"
  vao_num_entries :: int

function enable_attribs_loop :: "gl_vao \<Rightarrow> int \<Rightarrow> gl_state \<Rightarrow> failure + gl_state" where
  "enable_attribs_loop vao n s =
     (if n < vao_num_entries vao
      then
        let e = vao_entries vao n
        in case (case rpi_type e of
                   RA_VARTYPE_INT \<Rightarrow> Some (GL_INT, False)
                 | RA_VARTYPE_FLOAT \<Rightarrow> Some (GL_FLOAT, False)
                 | RA_VARTYPE_BYTE_UNORM \<Rightarrow> Some (GL_UNSIGNED_BYTE, True)
                 | _ \<Rightarrow> None) of
             None \<Rightarrow> Inl Aborted
           | Some (type, normalized) \<Rightarrow>
               if rpi_dim_m e \<noteq> 1 then Inl AssertionFailed
               else
                 let s = gl_do (EnableVertexAttribArray n) s;
                     s = gl_do (VertexAttribPointer n (rpi_dim_v e) type normalized
                                  (vao_stride vao) (rpi_offset e)) s
                 in enable_attribs_loop vao (n + 1) s
      else Inr s)"
  by pat_completeness auto
termination
  by (relation "measure (\<lambda>(vao, n, s). nat (vao_num_entries vao - n))") auto

definition gl_vao_enable_attribs :: "gl_vao \<Rightarrow> gl_state \<Rightarrow> failure + gl_state" where
  "gl_vao_enable_attribs vao s = enable_attribs_loop vao 0 s"

definition gl_vao_bind :: "gl_vao \<Rightarrow> gl_state \<Rightarrow> failure + gl_state" where
  "gl_vao_bind vao s =
     (if GL_has_BindVertexArray (vao_gl vao) then Inr (gl_do (BindVertexArray (vao_vao vao)) s)
      else
        let s = gl_do (BindBuffer GL_ARRAY_BUFFER (vao_buffer vao)) s
        in case gl_vao_enable_attribs vao s of
             Inl f \<Rightarrow> Inl f
           | Inr s \<Rightarrow> Inr (gl_do (BindBuffer GL_ARRAY_BUFFER 0) s))"

function disable_attribs_loop :: "int \<Rightarrow> int \<Rightarrow> gl_state \<Rightarrow> gl_state" where
  "disable_attribs_loop num_entries n s =
     (if n < num_entries
      then disable_attribs_loop num_entries (n + 1) (gl_do (DisableVertexAttribArray n) s)
      else s)"
  by pat_completeness auto
termination
  by (relation "measure (\<lambda>(num_entries, n, s). nat (num_entries - n))") auto

definition gl_vao_unbind :: "gl_vao \<Rightarrow> gl_state \<Rightarrow> gl_state" where
  "gl_vao_unbind vao s =
     (if GL_has_BindVertexArray (vao_gl vao) then gl_do (BindVertexArray 0) s
      else disable_attribs_loop (vao_num_entries vao) 0 s)"

text \<open>The attribute arrays enabled in the vertex array that is current.\<close>

definition gl_current_attribs :: "gl_state \<Rightarrow> int set" where
  "gl_current_attribs s = gl_attrib_enabled s (gl_vertex_array s)"

section \<open>Overlay draw driver (utils.c, gui_run)\<close>

text \<open>
  The draw data of the overlay library (cimgui.h), with the fields gui_run reads. An
  \<^verbatim>\<open>ImVector\<close> is a list (\<^verbatim>\<open>Size\<close> is its length, and \<^verbatim>\<open>CmdListsCount\<close> the
  length of \<^verbatim>\<open>CmdLists\<close>); of the vertex and index buffers only the sizes are kept.
  \<^verbatim>\<open>UserCallback\<close> is a function pointer, \<open>None\<close> when NULL.
\<close>

record ImVec2 =
  ImVec2_x :: float32
  ImVec2_y :: float32

record ImVec4 =
  ImVec4_x :: float32
  ImVec4_y :: float32
  ImVec4_z :: float32
  ImVec4_w :: float32

record ImDrawCmd =
  ElemCount :: int
  ClipRect :: ImVec4
  TextureId :: int
  UserCallback :: "nat option"

record ImDrawList =
  CmdBuffer :: "ImDrawCmd list"
  IdxBuffer_Size :: int
  VtxBuffer_Size :: int

record ImDrawData =
  CmdLists :: "ImDrawList list"
  DisplayPos :: ImVec2
  DisplaySize :: ImVec2

record ImGuiIO =
  DisplayFramebufferScale :: ImVec2

text \<open>
  \<^verbatim>\<open>sizeof(ImDrawVert)\<close> and the offsets of its members come from cimgui.h and are
  parameters.
\<close>

record ImDrawVert_layout =
  sizeof_ImDrawVert :: int
  offsetof_pos :: int
  offsetof_uv :: int
  offsetof_col :: int

text \<open>The file-level variables of utils.c that gui_run reads or writes.\<close>

record gui_globals =
  g_ShaderHandle :: int
  g_AttribLocationTex :: int
  g_AttribLocationProjMtx :: int
  g_AttribLocationPosition :: int
  g_AttribLocationUV :: int
  g_AttribLocationColor :: int
  g_VboHandle :: int
  g_ElementsHandle :: int

text \<open>The locals \<^verbatim>\<open>last_*\<close> of gui_run.\<close>

record gui_saved =
  last_active_texture :: glenum
  last_program :: int
  last_texture :: int
  last_array_buffer :: int
  last_vertex_array :: int
  last_viewport :: rect
  last_scissor_box :: rect
  last_blend_src_rgb :: glenum
  last_blend_dst_rgb :: glenum
  last_blend_src_alpha :: glenum
  last_blend_dst_alpha :: glenum
  last_blend_equation_rgb :: glenum
  last_blend_equation_alpha :: glenum
  last_enable_blend :: bool
  last_enable_cull_face :: bool
  last_enable_depth_test :: bool
  last_enable_scissor_test :: bool

definition gl_GenVertexArrays :: "gl_state \<Rightarrow> int \<times> gl_state" where
  "gl_GenVertexArrays s = (fresh_name (gl_vertex_arrays s), gl_do GenVertexArrays s)"

text \<open>Lines 487 to 506: the uniform locations are refreshed and the state is read.\<close>

definition gui_backup :: "gui_globals \<Rightarrow> gl_state \<Rightarrow> gui_globals \<times> gui_saved \<times> gl_state" where
  "gui_backup g s =
     (let (tex, s) = gl_GetUniformLocation (g_ShaderHandle g) ''Texture'' s;
          g = g\<lparr>g_AttribLocationTex := tex\<rparr>;
          (mtx, s) = gl_GetUniformLocation (g_ShaderHandle g) ''ProjMtx'' s;
          g = g\<lparr>g_AttribLocationProjMtx := mtx\<rparr>;
          (active_texture, s) = gl_GetIntegerv GL_ACTIVE_TEXTURE s;
          s = gl_do (ActiveTexture GL_TEXTURE0) s;
          (program, s) = gl_GetIntegerv GL_CURRENT_PROGRAM s;
          (texture, s) = gl_GetIntegerv GL_TEXTURE_BINDING_2D s;
          (array_buffer, s) = gl_GetIntegerv GL_ARRAY_BUFFER_BINDING s;
          (vertex_array, s) = gl_GetIntegerv GL_VERTEX_ARRAY_BINDING s;
          (viewport, s) = gl_GetIntegerv4 GL_VIEWPORT s;
          (scissor_box, s) = gl_GetIntegerv4 GL_SCISSOR_BOX s;
          (blend_src_rgb, s) = gl_GetIntegerv GL_BLEND_SRC_RGB s;
          (blend_dst_rgb, s) = gl_GetIntegerv GL_BLEND_DST_RGB s;
          (blend_src_alpha, s) = gl_GetIntegerv GL_BLEND_SRC_ALPHA s;
          (blend_dst_alpha, s) = gl_GetIntegerv GL_BLEND_DST_ALPHA s;
          (blend_equation_rgb, s) = gl_GetIntegerv GL_BLEND_EQUATION_RGB s;
          (blend_equation_alpha, s) = gl_GetIntegerv GL_BLEND_EQUATION_ALPHA s;
          (enable_blend, s) = gl_IsEnabled GL_BLEND s;
          (enable_cull_face, s) = gl_IsEnabled GL_CULL_FACE s;
          (enable_depth_test, s) = gl_IsEnabled GL_DEPTH_TEST s;
          (enable_scissor_test, s) = gl_IsEnabled GL_SCISSOR_TEST s
      in (g,
          \<lparr>last_active_texture = active_texture, last_program = program,
           last_texture = texture, last_array_buffer = array_buffer,
           last_vertex_array = vertex_array, last_viewport = viewport,
           last_scissor_box = scissor_box,
           last_blend_src_rgb = blend_src_rgb, last_blend_dst_rgb = blend_dst_rgb,
           last_blend_src_alpha = blend_src_alpha, last_blend_dst_alpha = blend_dst_alpha,
           last_blend_equation_rgb = blend_equation_rgb,
           last_blend_equation_alpha = blend_equation_alpha,
           last_enable_blend = enable_blend, last_enable_cull_face = enable_cull_face,
           last_enable_depth_test = enable_depth_test,
           last_enable_scissor_test = enable_scissor_test\<rparr>,
          s))"

definition ortho_projection :: "ImDrawData \<Rightarrow> float32 list" where
  "ortho_projection draw_data =
     (let L = ImVec2_x (DisplayPos draw_data);
          R = f32_add (ImVec2_x (DisplayPos draw_data)) (ImVec2_x (DisplaySize draw_data));
          T = ImVec2_y (DisplayPos draw_data);
          B = f32_add (ImVec2_y (DisplayPos draw_data)) (ImVec2_y (DisplaySize draw_data))
      in [f32_div (c_float_of_int 2) (f32_sub R L), f32_zero, f32_zero, f32_zero,
          f32_zero, f32_div (c_float_of_int 2) (f32_sub T B), f32_zero, f32_zero,
          f32_zero, f32_zero, c_float_of_int (- 1), f32_zero,
          f32_div (f32_add R L) (f32_sub L R), f32_div (f32_add T B) (f32_sub B T),
          f32_zero, c_float_of_int 1])"

text \<open>
  Lines 508 to 541: the render state of the overlay is forced and a temporary vertex array
  is set up. Calling \<^verbatim>\<open>gl->GenVertexArrays\<close> or \<^verbatim>\<open>gl->BindVertexArray\<close> when the entry
  point is NULL ends the run.
\<close>

definition gui_setup ::
  "GL \<Rightarrow> ImDrawVert_layout \<Rightarrow> gui_globals \<Rightarrow> ImDrawData \<Rightarrow> int \<Rightarrow> int \<Rightarrow> gl_state
     \<Rightarrow> failure + int \<times> gl_state" where
  "gui_setup gl lay g draw_data fb_width fb_height s =
     (let s = fold gl_do
                [Enable GL_BLEND,
                 BlendEquation GL_FUNC_ADD,
                 BlendFunc GL_SRC_ALPHA GL_ONE_MINUS_SRC_ALPHA,
                 Disable GL_CULL_FACE,
                 Disable GL_DEPTH_TEST,
                 Enable GL_SCISSOR_TEST,
                 Viewport 0 0 fb_width fb_height,
                 UseProgram (g_ShaderHandle g),
                 Uniform1i (g_AttribLocationTex g) 0,
                 UniformMatrix4fv (g_AttribLocationProjMtx g) (ortho_projection draw_data)] s
      in if \<not> GL_has_GenVertexArrays gl then Inl NullFunctionCalled
         else
           let (vao_handle, s) = gl_GenVertexArrays s
           in if \<not> GL_has_BindVertexArray gl then Inl NullFunctionCalled
              else Inr (vao_handle,
                fold gl_do
                  [BindVertexArray vao_handle,
                   BindBuffer GL_ARRAY_BUFFER (g_VboHandle g),
                   EnableVertexAttribArray (g_AttribLocationPosition g),
                   EnableVertexAttribArray (g_AttribLocationUV g),
                   EnableVertexAttribArray (g_AttribLocationColor g),
                   VertexAttribPointer (g_AttribLocationPosition g) 2 GL_FLOAT False
                     (sizeof_ImDrawVert lay) (offsetof_pos lay),
                   VertexAttribPointer (g_AttribLocationUV g) 2 GL_FLOAT False
                     (sizeof_ImDrawVert lay) (offsetof_uv lay),
                   VertexAttribPointer (g_AttribLocationColor g) 4 GL_UNSIGNED_BYTE True
                     (sizeof_ImDrawVert lay) (offsetof_col lay)] s))"

definition clip_origin_lower_left :: bool where
  "clip_origin_lower_left = True"

text \<open>
  Lines 554 to 571, the loop over the commands of one list. \<^verbatim>\<open>continue\<close> on a command
  with a user callback also skips the advance of \<^verbatim>\<open>idx_buffer_offset\<close>.
\<close>

fun gui_draw_cmds ::
  "ImVec2 \<Rightarrow> int \<Rightarrow> int \<Rightarrow> ImDrawCmd list \<Rightarrow> int \<Rightarrow> gl_state \<Rightarrow> gl_state" where
  "gui_draw_cmds pos fb_width fb_height [] idx_buffer_offset s = s"
| "gui_draw_cmds pos fb_width fb_height (pcmd # cmds) idx_buffer_offset s =
     (let clip_rect = \<lparr>ImVec4_x = f32_sub (ImVec4_x (ClipRect pcmd)) (ImVec2_x pos),
                       ImVec4_y = f32_sub (ImVec4_y (ClipRect pcmd)) (ImVec2_y pos),
                       ImVec4_z = f32_sub (ImVec4_z (ClipRect pcmd)) (ImVec2_x pos),
                       ImVec4_w = f32_sub (ImVec4_w (ClipRect pcmd)) (ImVec2_y pos)\<rparr>
      in if UserCallback pcmd \<noteq> None
         then gui_draw_cmds pos fb_width fb_height cmds idx_buffer_offset s
         else
           let s = (if f32_lt (ImVec4_x clip_rect) (c_float_of_int fb_width)
                       \<and> f32_lt (ImVec4_y clip_rect) (c_float_of_int fb_height)
                       \<and> f32_ge (ImVec4_z clip_rect) f32_zero
                       \<and> f32_ge (ImVec4_w clip_rect) f32_zero
                    then
                      let s = (if clip_origin_lower_left
                               then gl_do (Scissor
                                      (c_int_of_float (ImVec4_x clip_rect))
                                      (c_int_of_float
                                         (f32_sub (c_float_of_int fb_height) (ImVec4_w clip_rect)))
                                      (c_int_of_float
                                         (f32_sub (ImVec4_z clip_rect) (ImVec4_x clip_rect)))
                                      (c_int_of_float
                                         (f32_sub (ImVec4_w clip_rect) (ImVec4_y clip_rect)))) s
                               else gl_do (Scissor
                                      (c_int_of_float (ImVec4_x clip_rect))
                                      (c_int_of_float (ImVec4_y clip_rect))
                                      (c_int_of_float (ImVec4_z clip_rect))
                                      (c_int_of_float (ImVec4_w clip_rect))) s);
                          s = gl_do (BindTexture (TextureId pcmd)) s
                      in gl_do (DrawElements (ElemCount pcmd) idx_buffer_offset) s
                    else s)
           in gui_draw_cmds pos fb_width fb_height cmds
                (idx_buffer_offset + ElemCount pcmd) s)"

text \<open>Lines 544 to 572, the loop over the command lists.\<close>

fun gui_draw_lists ::
  "gui_globals \<Rightarrow> ImVec2 \<Rightarrow> int \<Rightarrow> int \<Rightarrow> ImDrawList list \<Rightarrow> gl_state \<Rightarrow> gl_state" where
  "gui_draw_lists g pos fb_width fb_height [] s = s"
| "gui_draw_lists g pos fb_width fb_height (cmd_list # more_lists) s =
     (let s = gl_do (BindBuffer GL_ARRAY_BUFFER (g_VboHandle g)) s;
          s = gl_do (BufferData GL_ARRAY_BUFFER (VtxBuffer_Size cmd_list)) s;
          s = gl_do (BindBuffer GL_ELEMENT_ARRAY_BUFFER (g_ElementsHandle g)) s;
          s = gl_do (BufferData GL_ELEMENT_ARRAY_BUFFER (IdxBuffer_Size cmd_list)) s;
          s = gui_draw_cmds pos fb_width fb_height (CmdBuffer cmd_list) 0 s
      in gui_draw_lists g pos fb_width fb_height more_lists s)"

text \<open>Lines 573 to 586: the temporary vertex array is deleted and the state written back.\<close>

definition gui_restore_calls :: "gui_saved \<Rightarrow> int \<Rightarrow> glcall list" where
  "gui_restore_calls sv vao_handle =
     [DeleteVertexArrays vao_handle,
      UseProgram (last_program sv),
      BindTexture (last_texture sv),
      ActiveTexture (last_active_texture sv),
      BindVertexArray (last_vertex_array sv),
      BindBuffer GL_ARRAY_BUFFER (last_array_buffer sv),
      BlendEquationSeparate (last_blend_equation_rgb sv) (last_blend_equation_alpha sv),
      BlendFuncSeparate (last_blend_src_rgb sv) (last_blend_dst_rgb sv)
        (last_blend_src_alpha sv) (last_blend_dst_alpha sv),
      (if last_enable_blend sv then Enable GL_BLEND else Disable GL_BLEND),
      (if last_enable_cull_face sv then Enable GL_CULL_FACE else Disable GL_CULL_FACE),
      (if last_enable_depth_test sv then Enable GL_DEPTH_TEST else Disable GL_DEPTH_TEST),
      (if last_enable_scissor_test sv then Enable GL_SCISSOR_TEST else Disable GL_SCISSOR_TEST),
      (case last_viewport sv of (vx, vy, vw, vh) \<Rightarrow> Viewport vx vy vw vh),
      (case last_scissor_box sv of (vx, vy, vw, vh) \<Rightarrow> Scissor vx vy vw vh)]"

definition gui_restore :: "GL \<Rightarrow> gui_saved \<Rightarrow> int \<Rightarrow> gl_state \<Rightarrow> failure + gl_state" where
  "gui_restore gl sv vao_handle s =
     (if \<not> GL_has_DeleteVertexArrays gl then Inl NullFunctionCalled
      else Inr (fold gl_do (gui_restore_calls sv vao_handle) s))"

text \<open>
  gui_run. \<^verbatim>\<open>igGetIO()\<close> and \<^verbatim>\<open>igGetDrawData()\<close> are the arguments \<open>io\<close> and
  \<open>draw_data\<close>, the latter \<open>None\<close> when NULL.
\<close>

definition gui_run ::
  "gl_vao \<Rightarrow> ImDrawVert_layout \<Rightarrow> ImGuiIO \<Rightarrow> ImDrawData option \<Rightarrow> gui_globals \<Rightarrow> gl_state
     \<Rightarrow> failure + gui_globals \<times> gl_state" where
  "gui_run vao lay io draw_data_opt g s =
     (let gl = vao_gl vao
      in case draw_data_opt of
           None \<Rightarrow> Inr (g, s)
         | Some draw_data \<Rightarrow>
             let fb_width = c_int_of_float
                   (f32_mul (ImVec2_x (DisplaySize draw_data))
                      (ImVec2_x (DisplayFramebufferScale io)));
                 fb_height = c_int_of_float
                   (f32_mul (ImVec2_y (DisplaySize draw_data))
                      (ImVec2_y (DisplayFramebufferScale io)))
             in if fb_width \<le> 0 \<or> fb_height \<le> 0 then Inr (g, s)
                else
                  let (g, sv, s) = gui_backup g s
                  in case gui_setup gl lay g draw_data fb_width fb_height s of
                       Inl f \<Rightarrow> Inl f
                     | Inr (vao_handle, s) \<Rightarrow>
                         let pos = DisplayPos draw_data;
                             s = gui_draw_lists g pos fb_width fb_height
                                   (CmdLists draw_data) s
                         in case gui_restore gl sv vao_handle s of
                              Inl f \<Rightarrow> Inl f
                            | Inr s \<Rightarrow> Inr (g, s))"

section \<open>Frame side data (av_common.c, mp_create_side_data_from_buf)\<close>

text \<open>
  The libavutil structures with the fields the function touches. \<^verbatim>\<open>frame->side_data\<close>
  is an array of pointers, modelled as the map from index to entry together with the number
  of slots the last successful \<^verbatim>\<open>av_realloc\<close> gave it. Whether \<^verbatim>\<open>av_realloc\<close> and
  \<^verbatim>\<open>av_mallocz\<close> succeed is an input. \<^verbatim>\<open>av_buffer_unref\<close> releases a reference; the
  references released are logged, oldest first. Sizes are those of an LP64 platform.
\<close>

record AVBufferRef =
  AVBufferRef_data :: nat
  AVBufferRef_size :: int

record AVFrameSideData =
  AVFrameSideData_type :: int
  AVFrameSideData_data :: nat
  AVFrameSideData_size :: int
  AVFrameSideData_buf :: AVBufferRef

record AVFrame =
  AVFrame_side_data :: "int \<rightharpoonup> AVFrameSideData"
  AVFrame_side_data_slots :: int
  AVFrame_nb_side_data :: int

definition INT_MAX :: int where "INT_MAX = 2147483647"
definition sizeof_pointer :: int where "sizeof_pointer = 8"

definition to_size_t :: "int \<Rightarrow> int" where
  "to_size_t v = v mod 2 ^ 64"

definition mp_create_side_data_from_buf ::
  "bool \<Rightarrow> bool \<Rightarrow> AVFrame \<Rightarrow> int \<Rightarrow> AVBufferRef option \<Rightarrow> AVBufferRef list
     \<Rightarrow> AVFrameSideData option \<times> AVFrame \<times> AVBufferRef list" where
  "mp_create_side_data_from_buf av_realloc_ok av_mallocz_ok frame type buf_opt unreffed =
     (case buf_opt of
        None \<Rightarrow> (None, frame, unreffed)
      | Some buf \<Rightarrow>
          if to_size_t (AVFrame_nb_side_data frame)
               > to_size_t (to_size_t INT_MAX div sizeof_pointer - 1)
          then (None, frame, unreffed @ [buf])
          else if \<not> av_realloc_ok then (None, frame, unreffed @ [buf])
          else
            let frame = frame\<lparr>AVFrame_side_data_slots := AVFrame_nb_side_data frame + 1\<rparr>
            in if \<not> av_mallocz_ok then (None, frame, unreffed @ [buf])
               else
                 let ret = \<lparr>AVFrameSideData_type = type,
                            AVFrameSideData_data = AVBufferRef_data buf,
                            AVFrameSideData_size = AVBufferRef_size buf,
                            AVFrameSideData_buf = buf\<rparr>;
                     frame = frame\<lparr>AVFrame_side_data :=
                                     (AVFrame_side_data frame)(AVFrame_nb_side_data frame \<mapsto> ret),
                                   AVFrame_nb_side_data := AVFrame_nb_side_data frame + 1\<rparr>
                 in (Some ret, frame, unreffed))"

section \<open>Observations on the call log and the state\<close>

text \<open>The calls a run added to the log of the state it started from.\<close>

definition new_calls :: "gl_state \<Rightarrow> gl_state \<Rightarrow> glcall list" where
  "new_calls s s' = drop (length (gl_calls s)) (gl_calls s')"

text \<open>The number of texture rows the uploads in a log transfer.\<close>

fun uploaded_rows :: "glcall list \<Rightarrow> int" where
  "uploaded_rows [] = 0"
| "uploaded_rows (TexSubImage2D target level x y w h format type data # cs) =
     h + uploaded_rows cs"
| "uploaded_rows (c # cs) = uploaded_rows cs"

fun is_upload :: "glcall \<Rightarrow> bool" where
  "is_upload (TexSubImage2D target level x y w h format type data) = True"
| "is_upload c = False"

text \<open>
  The upload as section 4.1 of the specification words it: with row-length support one
  full-height call between setting and resetting the row length; without it one
  full-height call when the rows are tightly packed, else one call per row, row \<open>k\<close> read
  at \<open>k * stride\<close>; the alignment is set first and reset to 4 last.
\<close>

definition upload_plan ::
  "bool \<Rightarrow> int \<Rightarrow> glenum \<Rightarrow> glenum \<Rightarrow> glenum \<Rightarrow> int \<Rightarrow> int \<Rightarrow> int \<Rightarrow> int \<Rightarrow> int \<Rightarrow> glcall list" where
  "upload_plan row_length bpp target format type stride x y w h =
     (if row_length
      then [PixelStorei GL_UNPACK_ALIGNMENT (get_alignment stride),
            PixelStorei GL_UNPACK_ROW_LENGTH (c_div stride bpp),
            TexSubImage2D target 0 x y w h format type 0,
            PixelStorei GL_UNPACK_ROW_LENGTH 0,
            PixelStorei GL_UNPACK_ALIGNMENT 4]
      else if stride = bpp * w
      then [PixelStorei GL_UNPACK_ALIGNMENT (get_alignment stride),
            TexSubImage2D target 0 x y w h format type 0,
            PixelStorei GL_UNPACK_ALIGNMENT 4]
      else PixelStorei GL_UNPACK_ALIGNMENT (get_alignment stride)
           # map (\<lambda>k. TexSubImage2D target 0 x (y + int k) w 1 format type (int k * stride))
               [0..<nat h]
           @ [PixelStorei GL_UNPACK_ALIGNMENT 4])"

text \<open>
  The framebuffer row and the destination byte offset of every line a log reads back.
\<close>

fun read_rows :: "glcall list \<Rightarrow> (int \<times> int) list" where
  "read_rows [] = []"
| "read_rows (ReadPixels x y w h format type dst # cs) = (y, dst) # read_rows cs"
| "read_rows (c # cs) = read_rows cs"

text \<open>The context state proper, with the call log blanked.\<close>

definition gl_without_log :: "gl_state \<Rightarrow> gl_state" where
  "gl_without_log s = s\<lparr>gl_calls := []\<rparr>"

text \<open>
  The snapshot of section 4.3 of the specification: every field gui_run captures, as the
  queries report it. \<open>GL_TEXTURE_BINDING_2D\<close> is the binding of the active texture unit.
\<close>

definition gl_snapshot :: "gl_state \<Rightarrow> gui_saved" where
  "gl_snapshot s =
     \<lparr>last_active_texture = gl_get GL_ACTIVE_TEXTURE s,
      last_program = gl_get GL_CURRENT_PROGRAM s,
      last_texture = gl_get GL_TEXTURE_BINDING_2D s,
      last_array_buffer = gl_get GL_ARRAY_BUFFER_BINDING s,
      last_vertex_array = gl_get GL_VERTEX_ARRAY_BINDING s,
      last_viewport = gl_get4 GL_VIEWPORT s,
      last_scissor_box = gl_get4 GL_SCISSOR_BOX s,
      last_blend_src_rgb = gl_get GL_BLEND_SRC_RGB s,
      last_blend_dst_rgb = gl_get GL_BLEND_DST_RGB s,
      last_blend_src_alpha = gl_get GL_BLEND_SRC_ALPHA s,
      last_blend_dst_alpha = gl_get GL_BLEND_DST_ALPHA s,
      last_blend_equation_rgb = gl_get GL_BLEND_EQUATION_RGB s,
      last_blend_equation_alpha = gl_get GL_BLEND_EQUATION_ALPHA s,
      last_enable_blend = gl_enabled s GL_BLEND,
      last_enable_cull_face = gl_enabled s GL_CULL_FACE,
      last_enable_depth_test = gl_enabled s GL_DEPTH_TEST,
      last_enable_scissor_test = gl_enabled s GL_SCISSOR_TEST\<rparr>"

text \<open>
  A state OpenGL can be in: the sizes of the viewport and of the scissor box are not
  negative.
\<close>

definition gl_valid :: "gl_state \<Rightarrow> bool" where
  "gl_valid s \<longleftrightarrow>
     (case gl_viewport s of (vx, vy, vw, vh) \<Rightarrow> 0 \<le> vw \<and> 0 \<le> vh)
     \<and> (case gl_scissor_box s of (vx, vy, vw, vh) \<Rightarrow> 0 \<le> vw \<and> 0 \<le> vh)"

text \<open>The calls of the snapshot step, lines 487 to 506 of gui_run.\<close>

definition gui_backup_calls :: "gui_globals \<Rightarrow> glcall list" where
  "gui_backup_calls g =
     [GetUniformLocation (g_ShaderHandle g) ''Texture'',
      GetUniformLocation (g_ShaderHandle g) ''ProjMtx'',
      GetIntegerv GL_ACTIVE_TEXTURE,
      ActiveTexture GL_TEXTURE0,
      GetIntegerv GL_CURRENT_PROGRAM,
      GetIntegerv GL_TEXTURE_BINDING_2D,
      GetIntegerv GL_ARRAY_BUFFER_BINDING,
      GetIntegerv GL_VERTEX_ARRAY_BINDING,
      GetIntegerv4 GL_VIEWPORT,
      GetIntegerv4 GL_SCISSOR_BOX,
      GetIntegerv GL_BLEND_SRC_RGB,
      GetIntegerv GL_BLEND_DST_RGB,
      GetIntegerv GL_BLEND_SRC_ALPHA,
      GetIntegerv GL_BLEND_DST_ALPHA,
      GetIntegerv GL_BLEND_EQUATION_RGB,
      GetIntegerv GL_BLEND_EQUATION_ALPHA,
      IsEnabled GL_BLEND,
      IsEnabled GL_CULL_FACE,
      IsEnabled GL_DEPTH_TEST,
      IsEnabled GL_SCISSOR_TEST]"

fun is_ActiveTexture :: "glcall \<Rightarrow> bool" where
  "is_ActiveTexture (ActiveTexture e) = True"
| "is_ActiveTexture c = False"

text \<open>
  The draw calls of a log, oldest first: for every \<open>DrawElements\<close> the arguments of the
  latest \<open>Scissor\<close> call and of the latest \<open>BindTexture\<close> call before it (\<open>sc\<close> and
  \<open>tex\<close> when there is none), and its element count.
\<close>

fun issued_draws :: "rect \<Rightarrow> int \<Rightarrow> glcall list \<Rightarrow> (rect \<times> int \<times> int) list" where
  "issued_draws sc tex [] = []"
| "issued_draws sc tex (Scissor vx vy vw vh # cs) = issued_draws (vx, vy, vw, vh) tex cs"
| "issued_draws sc tex (BindTexture t # cs) = issued_draws sc t cs"
| "issued_draws sc tex (DrawElements n off # cs) = (sc, tex, n) # issued_draws sc tex cs"
| "issued_draws sc tex (c # cs) = issued_draws sc tex cs"

fun is_DrawElements :: "glcall \<Rightarrow> bool" where
  "is_DrawElements (DrawElements n off) = True"
| "is_DrawElements c = False"

text \<open>
  The clip handling as the specification words it: the clip rectangle of a command
  translated by the display origin, the test that accepts it, and the scissor rectangle of
  an accepted one.
\<close>

definition translated_clip :: "ImVec2 \<Rightarrow> ImDrawCmd \<Rightarrow> ImVec4" where
  "translated_clip pos c =
     \<lparr>ImVec4_x = f32_sub (ImVec4_x (ClipRect c)) (ImVec2_x pos),
      ImVec4_y = f32_sub (ImVec4_y (ClipRect c)) (ImVec2_y pos),
      ImVec4_z = f32_sub (ImVec4_z (ClipRect c)) (ImVec2_x pos),
      ImVec4_w = f32_sub (ImVec4_w (ClipRect c)) (ImVec2_y pos)\<rparr>"

definition clip_accepted :: "int \<Rightarrow> int \<Rightarrow> ImVec4 \<Rightarrow> bool" where
  "clip_accepted fb_width fb_height clip \<longleftrightarrow>
     f32_lt (ImVec4_x clip) (c_float_of_int fb_width)
     \<and> f32_lt (ImVec4_y clip) (c_float_of_int fb_height)
     \<and> f32_ge (ImVec4_z clip) f32_zero \<and> f32_ge (ImVec4_w clip) f32_zero"

definition clip_scissor :: "int \<Rightarrow> ImVec4 \<Rightarrow> rect" where
  "clip_scissor fb_height clip =
     (c_int_of_float (ImVec4_x clip),
      c_int_of_float (f32_sub (c_float_of_int fb_height) (ImVec4_w clip)),
      c_int_of_float (f32_sub (ImVec4_z clip) (ImVec4_x clip)),
      c_int_of_float (f32_sub (ImVec4_w clip) (ImVec4_y clip)))"

definition cmd_drawn :: "ImVec2 \<Rightarrow> int \<Rightarrow> int \<Rightarrow> ImDrawCmd \<Rightarrow> bool" where
  "cmd_drawn pos fb_width fb_height c \<longleftrightarrow>
     UserCallback c = None \<and> clip_accepted fb_width fb_height (translated_clip pos c)"

definition cmd_draw :: "ImVec2 \<Rightarrow> int \<Rightarrow> ImDrawCmd \<Rightarrow> rect \<times> int \<times> int" where
  "cmd_draw pos fb_height c =
     (clip_scissor fb_height (translated_clip pos c), TextureId c, ElemCount c)"

text \<open>The framebuffer size gui_run computes, lines 482 and 483.\<close>

definition gui_fb_width :: "ImGuiIO \<Rightarrow> ImDrawData \<Rightarrow> int" where
  "gui_fb_width io draw_data =
     c_int_of_float
       (f32_mul (ImVec2_x (DisplaySize draw_data)) (ImVec2_x (DisplayFramebufferScale io)))"

definition gui_fb_height :: "ImGuiIO \<Rightarrow> ImDrawData \<Rightarrow> int" where
  "gui_fb_height io draw_data =
     c_int_of_float
       (f32_mul (ImVec2_y (DisplaySize draw_data)) (ImVec2_y (DisplayFramebufferScale io)))"

text \<open>The commands of all lists, in the order gui_run visits them.\<close>

definition all_cmds :: "ImDrawData \<Rightarrow> ImDrawCmd list" where
  "all_cmds draw_data = concat (map CmdBuffer (CmdLists draw_data))"

section \<open>Example inputs\<close>

text \<open>
  A fresh context: nothing bound, nothing enabled, the default blend and pixel-store
  values, an empty viewport and scissor box.
\<close>

definition gl_initial :: gl_state where
  "gl_initial =
     \<lparr>gl_active_unit = 0, gl_program = 0, gl_texture_2d = (\<lambda>u. 0), gl_array_buffer = 0,
      gl_vertex_array = 0, gl_vertex_arrays = [], gl_element_buffer = (\<lambda>a. 0),
      gl_attrib_enabled = (\<lambda>a. {}), gl_viewport = (0, 0, 0, 0), gl_scissor_box = (0, 0, 0, 0),
      gl_blend_src_rgb = 1, gl_blend_dst_rgb = 0, gl_blend_src_alpha = 1,
      gl_blend_dst_alpha = 0, gl_blend_equation_rgb = GL_FUNC_ADD,
      gl_blend_equation_alpha = GL_FUNC_ADD, gl_enabled = (\<lambda>c. False),
      gl_unpack_alignment = 4, gl_unpack_row_length = 0, gl_pack_alignment = 4,
      gl_framebuffer = 0, gl_read_buffer = GL_FRONT, gl_uniform_location = (\<lambda>p n. 0),
      gl_calls = []\<rparr>"

text \<open>A context without optional capabilities, and one with all of them.\<close>

definition gl_no_caps :: GL where
  "gl_no_caps = \<lparr>GL_es = False, GL_cap_row_length = False, GL_has_GenVertexArrays = False,
                  GL_has_BindVertexArray = False, GL_has_DeleteVertexArrays = False\<rparr>"

definition gl_all_caps :: GL where
  "gl_all_caps = \<lparr>GL_es = False, GL_cap_row_length = True, GL_has_GenVertexArrays = True,
                   GL_has_BindVertexArray = True, GL_has_DeleteVertexArrays = True\<rparr>"

text \<open>A binding of three float attributes on a context without vertex-array objects.\<close>

definition vao_example :: gl_vao where
  "vao_example =
     \<lparr>vao_gl = gl_no_caps, vao_vao = 0, vao_buffer = 1, vao_stride = 20,
      vao_entries = (\<lambda>n. \<lparr>rpi_type = RA_VARTYPE_FLOAT, rpi_dim_v = 2, rpi_dim_m = 1,
                            rpi_offset = 8 * n\<rparr>),
      vao_num_entries = 3\<rparr>"

text \<open>An empty frame and a buffer reference of 16 bytes.\<close>

definition frame_example :: AVFrame where
  "frame_example = \<lparr>AVFrame_side_data = Map.empty, AVFrame_side_data_slots = 0,
                     AVFrame_nb_side_data = 0\<rparr>"

definition buf_example :: AVBufferRef where
  "buf_example = \<lparr>AVBufferRef_data = 4096, AVBufferRef_size = 16\<rparr>"

text \<open>
  The scenario of section 8 of the specification: a display of 800 by 600 at the origin
  with framebuffer scale 1, and one list with one command of clip rectangle
  (10, 10, 100, 100), six elements and no user callback.
\<close>

definition io_example :: ImGuiIO where
  "io_example =
     \<lparr>DisplayFramebufferScale = \<lparr>ImVec2_x = c_float_of_int 1, ImVec2_y = c_float_of_int 1\<rparr>\<rparr>"

definition cmd_example :: ImDrawCmd where
  "cmd_example =
     \<lparr>ElemCount = 6,
      ClipRect = \<lparr>ImVec4_x = c_float_of_int 10, ImVec4_y = c_float_of_int 10,
                  ImVec4_z = c_float_of_int 100, ImVec4_w = c_float_of_int 100\<rparr>,
      TextureId = 1, UserCallback = None\<rparr>"

definition draw_data_example :: ImDrawData where
  "draw_data_example =
     \<lparr>CmdLists = [\<lparr>CmdBuffer = [cmd_example], IdxBuffer_Size = 6, VtxBuffer_Size = 4\<rparr>],
      DisplayPos = \<lparr>ImVec2_x = f32_zero, ImVec2_y = f32_zero\<rparr>,
      DisplaySize = \<lparr>ImVec2_x = c_float_of_int 800, ImVec2_y = c_float_of_int 600\<rparr>\<rparr>"

definition layout_example :: ImDrawVert_layout where
  "layout_example =
     \<lparr>sizeof_ImDrawVert = 20, offsetof_pos = 0, offsetof_uv = 8, offsetof_col = 16\<rparr>"

definition globals_example :: gui_globals where
  "globals_example =
     \<lparr>g_ShaderHandle = 3, g_AttribLocationTex = 0, g_AttribLocationProjMtx = 0,
      g_AttribLocationPosition = 0, g_AttribLocationUV = 1, g_AttribLocationColor = 2,
      g_VboHandle = 1, g_ElementsHandle = 2\<rparr>"

definition vao_caps_example :: gl_vao where
  "vao_caps_example = vao_example\<lparr>vao_gl := gl_all_caps, vao_vao := 1\<rparr>"

text \<open>
  A context in use: texture unit 1 active with textures bound on units 0 and 1, a program,
  buffers and a vertex array bound, a viewport and a scissor box set, depth and scissor
  tests enabled.
\<close>

definition gl_in_use :: gl_state where
  "gl_in_use =
     gl_initial\<lparr>gl_active_unit := 1, gl_program := 7,
                gl_texture_2d := (\<lambda>u. if u = 0 then 11 else if u = 1 then 12 else 0),
                gl_array_buffer := 5, gl_vertex_array := 1, gl_vertex_arrays := [1],
                gl_viewport := (0, 0, 1920, 1080), gl_scissor_box := (5, 5, 50, 50),
                gl_enabled := (\<lambda>c. c = GL_DEPTH_TEST \<or> c = GL_SCISSOR_TEST)\<rparr>"

text \<open>A draw data whose display size is zero.\<close>

definition draw_data_empty :: ImDrawData where
  "draw_data_empty =
     draw_data_example\<lparr>DisplaySize := \<lparr>ImVec2_x = f32_zero, ImVec2_y = f32_zero\<rparr>\<rparr>"

text \<open>
  A display of 1920 by 1080 with framebuffer scale \<^verbatim>\<open>0.9f\<close>, and a command whose clip
  rectangle has the bottom edge \<^verbatim>\<open>1e-5f\<close>.
\<close>

definition io_scaled_example :: ImGuiIO where
  "io_scaled_example =
     \<lparr>DisplayFramebufferScale =
        \<lparr>ImVec2_x = f32_div (c_float_of_int 9) (c_float_of_int 10),
         ImVec2_y = f32_div (c_float_of_int 9) (c_float_of_int 10)\<rparr>\<rparr>"

definition draw_data_scaled_example :: ImDrawData where
  "draw_data_scaled_example =
     draw_data_example\<lparr>DisplaySize :=
       \<lparr>ImVec2_x = c_float_of_int 1920, ImVec2_y = c_float_of_int 1080\<rparr>\<rparr>"

definition cmd_thin_example :: ImDrawCmd where
  "cmd_thin_example =
     cmd_example\<lparr>ClipRect :=
       \<lparr>ImVec4_x = f32_zero, ImVec4_y = f32_zero, ImVec4_z = c_float_of_int 100,
        ImVec4_w = f32_div (c_float_of_int 1) (c_float_of_int 100000)\<rparr>\<rparr>"

section \<open>Properties\<close>

subsection \<open>binary32\<close>

declare bit_length.simps [simp del]

lemma bit_length_numeral:
  "bit_length 0 = 0"
  "bit_length 1 = 1"
  "bit_length (numeral k) = 1 + bit_length (numeral k div 2)"
  by (simp_all add: bit_length.simps)

lemmas f32_eval =
  f32_pack_def [where n = 0] f32_pack_def [where n = 1] f32_pack_def [where n = "numeral k" for k]
  bit_length_numeral c_float_of_int_def f32_zero_def f32_lt_def f32_ge_def f32_eq_def Let_def

text \<open>
  Some values: the conversions of small ints are exact, \<open>2 ^ 24 + 1\<close> is a tie and goes
  to the even neighbour, and the quotients are the constants \<^verbatim>\<open>0.9f\<close> (bits
  \<^verbatim>\<open>0x3f666666\<close>) and \<^verbatim>\<open>1e-5f\<close> (bits \<^verbatim>\<open>0x3727c5ac\<close>).
\<close>

lemma float_consts:
  "c_float_of_int 0 = Finite False 0 0"
  "c_float_of_int 1 = Finite False 127 0"
  "c_float_of_int 10 = Finite False 130 0x200000"
  "c_float_of_int 100 = Finite False 133 0x480000"
  "c_float_of_int 600 = Finite False 136 0x160000"
  "c_float_of_int 800 = Finite False 136 0x480000"
  "c_float_of_int 972 = Finite False 136 0x730000"
  "c_float_of_int 1080 = Finite False 137 0x070000"
  "c_float_of_int 1920 = Finite False 137 0x700000"
  "c_float_of_int 16777217 = Finite False 151 0"
  by (simp_all add: f32_eval)

lemma float_09: "f32_div (c_float_of_int 9) (c_float_of_int 10) = Finite False 126 0x666666"
  by (simp add: f32_eval)

lemma float_1em5:
  "f32_div (c_float_of_int 1) (c_float_of_int 100000) = Finite False 110 0x27c5ac"
  by (simp add: f32_eval)

text \<open>
  Rounding is visible in the framebuffer size and in the scissor: in binary32
  \<open>1920 * 0.9f\<close> is 1728 and \<open>1080 * 0.9f\<close> is 972 (the exact products lie below), and
  \<open>600 - 1e-5f\<close> is 600. A product beyond the range of int casts to \<^verbatim>\<open>INT_MIN\<close>.
\<close>

lemma float_rounding_examples:
  "c_int_of_float (f32_mul (Finite False 137 0x700000) (Finite False 126 0x666666)) = 1728"
  "c_int_of_float (f32_mul (Finite False 137 0x070000) (Finite False 126 0x666666)) = 972"
  "c_int_of_float (f32_sub (Finite False 136 0x160000) (Finite False 110 0x27c5ac)) = 600"
  "c_int_of_float (f32_mul (c_float_of_int 65536) (c_float_of_int 65536)) = - 2147483648"
  by (simp_all add: f32_eval)

lemma f32_order:
  "f32_lt a b \<Longrightarrow> \<not> f32_lt b a"
  "f32_lt a b \<Longrightarrow> \<not> f32_ge a b"
  "f32_eq a b \<Longrightarrow> f32_ge a b"
  by (auto simp: f32_lt_def f32_ge_def f32_eq_def split: option.splits)

subsection \<open>get_alignment\<close>

lemma c_rem_zero_iff: "0 < b \<Longrightarrow> c_rem a b = 0 \<longleftrightarrow> b dvd a"
proof -
  assume b: "0 < b"
  have "\<bar>a\<bar> mod \<bar>b\<bar> = 0 \<longleftrightarrow> b dvd a"
    using b by (simp add: dvd_eq_mod_eq_0 [symmetric])
  moreover have "c_rem a b = 0 \<longleftrightarrow> a = 0 \<or> \<bar>a\<bar> mod \<bar>b\<bar> = 0"
    by (simp add: c_rem_def sgn_if)
  ultimately show ?thesis by auto
qed

lemma get_alignment_cases:
  "get_alignment stride =
     (if 8 dvd stride then 8 else if 4 dvd stride then 4 else if 2 dvd stride then 2 else 1)"
  by (simp add: get_alignment_def c_rem_zero_iff)

lemma get_alignment_20: "get_alignment 20 = 4"
  by (simp add: get_alignment_cases)

text \<open>
  Claim C4. For every positive stride, \<open>get_alignment stride\<close> is one of 8, 4, 2, 1, it
  divides the stride, and no larger member of that set divides the stride: it is 8 if
  the remainder of the stride by 8 is 0, else 4 if that by 4 is 0, else 2 if that by 2 is
  0, else 1.
\<close>

theorem get_alignment_largest_divisor:
  assumes "0 < stride"
  shows "get_alignment stride \<in> {8, 4, 2, 1}
       \<and> get_alignment stride dvd stride
       \<and> (\<forall>d \<in> {8, 4, 2, 1}. d dvd stride \<longrightarrow> d \<le> get_alignment stride)
       \<and> get_alignment stride =
           (if stride mod 8 = 0 then 8 else if stride mod 4 = 0 then 4
            else if stride mod 2 = 0 then 2 else 1)"
proof -
  consider (c8) "8 dvd stride" | (c4) "\<not> 8 dvd stride" "4 dvd stride"
    | (c2) "\<not> 8 dvd stride" "\<not> 4 dvd stride" "2 dvd stride"
    | (c1) "\<not> 8 dvd stride" "\<not> 4 dvd stride" "\<not> 2 dvd stride"
    by blast
  then show ?thesis
  proof cases
    case c8 then show ?thesis by (simp add: get_alignment_cases dvd_eq_mod_eq_0)
  next
    case c4 then show ?thesis by (simp add: get_alignment_cases dvd_eq_mod_eq_0)
  next
    case c2 then show ?thesis by (simp add: get_alignment_cases dvd_eq_mod_eq_0)
  next
    case c1 then show ?thesis by (simp add: get_alignment_cases dvd_eq_mod_eq_0)
  qed
qed

theorem get_alignment_largest_divisor_witness:
  "(0::int) < 20 \<and> get_alignment 20 = 4 \<and> get_alignment 20 dvd 20"
proof -
  have h: "(0::int) < 20" by simp
  from get_alignment_largest_divisor [OF h] have "get_alignment 20 dvd 20" by blast
  with h get_alignment_20 show ?thesis by blast
qed

subsection \<open>gl_upload_tex\<close>

declare upload_slices.simps [simp del]

lemma gl_calls_gl_do: "gl_calls (gl_do c s) = gl_calls s @ [c]"
  by (simp add: gl_do_def)

lemma gl_calls_fold: "gl_calls (fold gl_do cs s) = gl_calls s @ cs"
  by (induction cs arbitrary: s) (simp_all add: gl_calls_gl_do)

lemma new_calls_fold: "new_calls s (fold gl_do cs s) = cs"
  by (simp add: new_calls_def gl_calls_fold)

lemma upload_slices_full:
  assumes "0 < h"
  shows "upload_slices target x w format type stride h (y + h) y data s =
           (y + h, data + stride * h,
            gl_do (TexSubImage2D target 0 x y w h format type data) s)"
proof -
  have "upload_slices target x w format type stride h (y + h) (y + h) (data + stride * h)
          (gl_do (TexSubImage2D target 0 x y w h format type data) s)
        = (y + h, data + stride * h, gl_do (TexSubImage2D target 0 x y w h format type data) s)"
    using assms by (subst upload_slices.simps) simp
  then show ?thesis
    using assms by (subst upload_slices.simps) simp
qed

lemma upload_slices_rows:
  "y_max - y = int n \<Longrightarrow>
   upload_slices target x w format type stride 1 y_max y data s =
     (y_max, data + stride * int n,
      fold gl_do (map (\<lambda>k. TexSubImage2D target 0 x (y + int k) w 1 format type
                              (data + int k * stride)) [0..<n]) s)"
proof (induction n arbitrary: y data s)
  case 0
  then show ?case by (subst upload_slices.simps) simp
next
  case (Suc n)
  from Suc.prems have step: "y_max - (y + 1) = int n" by simp
  have cont: "y + 1 \<le> y_max" using Suc.prems by simp
  have shift: "map (\<lambda>k. TexSubImage2D target 0 x (y + int k) w 1 format type
                          (data + int k * stride)) [0..<Suc n]
             = TexSubImage2D target 0 x y w 1 format type data
               # map (\<lambda>k. TexSubImage2D target 0 x (y + 1 + int k) w 1 format type
                             (data + stride + int k * stride)) [0..<n]"
    by (simp add: upt_conv_Cons map_Suc_upt [symmetric] algebra_simps del: upt_Suc)
  have unfold: "upload_slices target x w format type stride 1 y_max y data s
        = upload_slices target x w format type stride 1 y_max (y + 1) (data + stride)
            (gl_do (TexSubImage2D target 0 x y w 1 format type data) s)"
    using cont by (subst upload_slices.simps) simp
  have off: "data + stride + stride * int n = data + stride * int (Suc n)"
    by (simp add: algebra_simps)
  show ?case
    unfolding unfold Suc.IH [OF step] shift off by simp
qed

lemma gl_upload_tex_plan:
  assumes "0 < w" "0 < h" "gl_bytes_per_pixel format type \<noteq> 0" "0 < stride"
  shows "gl_upload_tex gl gl_bytes_per_pixel target format type stride x y w h s =
           Inr (fold gl_do (upload_plan (GL_cap_row_length gl) (gl_bytes_per_pixel format type)
                              target format type stride x y w h) s)"
proof -
  let ?bpp = "gl_bytes_per_pixel format type"
  have rows: "upload_slices target x w format type stride 1 (y + h) y 0 t =
     (y + h, 0 + stride * int (nat h),
      fold gl_do (map (\<lambda>k. TexSubImage2D target 0 x (y + int k) w 1 format type
                              (0 + int k * stride)) [0..<nat h]) t)" for t
    using assms(2) by (intro upload_slices_rows) simp
  show ?thesis
  proof (cases "GL_cap_row_length gl")
    case True
    then show ?thesis
      using assms by (simp add: gl_upload_tex_def upload_plan_def upload_slices_full)
  next
    case False
    show ?thesis
    proof (cases "stride = ?bpp * w")
      case True
      with False show ?thesis
        using assms by (simp add: gl_upload_tex_def upload_plan_def upload_slices_full)
    next
      case ne: False
      with False show ?thesis
        using assms by (simp add: gl_upload_tex_def upload_plan_def rows)
    qed
  qed
qed

lemma uploaded_rows_map:
  "uploaded_rows (map (\<lambda>k. TexSubImage2D target level x (f k) w 1 format type (g k)) ks @ cs)
     = int (length ks) + uploaded_rows cs"
  by (induction ks) simp_all

lemma count_uploads_map:
  "length (filter is_upload
     (map (\<lambda>k. TexSubImage2D target level x (f k) w 1 format type (g k)) ks @ cs))
     = length ks + length (filter is_upload cs)"
  by (induction ks) simp_all

lemma uploaded_rows_plan:
  "0 < h \<Longrightarrow> uploaded_rows (upload_plan rl bpp target format type stride x y w h) = h"
  by (simp add: upload_plan_def uploaded_rows_map)

lemma count_uploads_plan:
  "length (filter is_upload (upload_plan rl bpp target format type stride x y w h))
     = (if rl \<or> stride = bpp * w then 1 else nat h)"
  by (simp add: upload_plan_def count_uploads_map)

text \<open>
  Claim C3. A call with \<open>w > 0\<close>, \<open>h > 0\<close>, a nonzero pixel size and a stride that
  passes the assertion \<open>stride > 0\<close> returns, and the calls it issued are those of
  \<open>upload_plan\<close>: one full-height upload with the row length set to \<open>stride / bpp\<close> when
  row lengths are supported; otherwise one full-height upload for tightly packed rows, else
  \<open>h\<close> uploads of one row, row \<open>k\<close> read at byte \<open>k * stride\<close>. The rows uploaded
  add up to \<open>h\<close>.
\<close>

theorem gl_upload_tex_slicing:
  assumes "0 < w" and "0 < h" and "gl_bytes_per_pixel format type \<noteq> 0" and "0 < stride"
  shows "\<exists>s'. gl_upload_tex gl gl_bytes_per_pixel target format type stride x y w h s = Inr s'
           \<and> new_calls s s' = upload_plan (GL_cap_row_length gl) (gl_bytes_per_pixel format type)
                                   target format type stride x y w h
           \<and> length (filter is_upload (new_calls s s'))
               = (if GL_cap_row_length gl \<or> stride = gl_bytes_per_pixel format type * w
                  then 1 else nat h)
           \<and> uploaded_rows (new_calls s s') = h"
  using assms
  by (simp add: gl_upload_tex_plan new_calls_fold uploaded_rows_plan count_uploads_plan)

lemma upt_4: "[0..<4] = [0, 1, 2, 3]"
  by (simp add: upt_rec)

theorem gl_upload_tex_slicing_witness:
  "\<exists>s'. gl_upload_tex gl_no_caps (\<lambda>f t. 4) GL_TEXTURE_2D 0 0 20 0 0 4 4 gl_initial = Inr s'
     \<and> new_calls gl_initial s' =
         [PixelStorei GL_UNPACK_ALIGNMENT 4,
          TexSubImage2D GL_TEXTURE_2D 0 0 0 4 1 0 0 0,
          TexSubImage2D GL_TEXTURE_2D 0 0 1 4 1 0 0 20,
          TexSubImage2D GL_TEXTURE_2D 0 0 2 4 1 0 0 40,
          TexSubImage2D GL_TEXTURE_2D 0 0 3 4 1 0 0 60,
          PixelStorei GL_UNPACK_ALIGNMENT 4]
     \<and> length (filter is_upload (new_calls gl_initial s')) = 4
     \<and> uploaded_rows (new_calls gl_initial s') = 4"
  using gl_upload_tex_slicing [of 4 4 "\<lambda>f t. 4" 0 0 20 gl_no_caps GL_TEXTURE_2D 0 0 gl_initial]
  by (simp add: upload_plan_def gl_no_caps_def get_alignment_20 upt_4)

text \<open>
  Claim C8. A call of gl_upload_tex with \<open>w \<le> 0\<close>, \<open>h \<le> 0\<close> or a zero pixel size returns
  normally with the state, call log included, as it was; gl_read_fbo_contents asked for
  framebuffer 0 on an ES context (with a direction that passes its assertion) returns
  false, again with the state and the log untouched.
\<close>

theorem precondition_violations_skipped:
  "(w \<le> 0 \<or> h \<le> 0 \<or> gl_bytes_per_pixel format type = 0 \<longrightarrow>
      gl_upload_tex gl gl_bytes_per_pixel target format type stride x y w h s = Inr s
      \<and> new_calls s s = [])
   \<and> (fbo = 0 \<and> GL_es gl \<and> (dir = 1 \<or> dir = -1) \<longrightarrow>
      gl_read_fbo_contents gl fbo dir rformat rtype rw rh dst_stride s = Inr (False, s)
      \<and> new_calls s s = [])"
  by (auto simp: gl_upload_tex_def gl_read_fbo_contents_def new_calls_def Let_def)

theorem precondition_violations_skipped_witness:
  "gl_upload_tex (gl_no_caps\<lparr>GL_es := True\<rparr>) (\<lambda>f t. 4) GL_TEXTURE_2D 0 0 16 0 0 0 4 gl_initial
     = Inr gl_initial
   \<and> gl_read_fbo_contents (gl_no_caps\<lparr>GL_es := True\<rparr>) 0 (-1) 0 0 4 4 16 gl_initial
       = Inr (False, gl_initial)"
  using precondition_violations_skipped
    [where w = 0 and h = 4 and gl_bytes_per_pixel = "\<lambda>f t. 4" and format = 0 and type = 0
       and gl = "gl_no_caps\<lparr>GL_es := True\<rparr>" and target = GL_TEXTURE_2D and stride = 16
       and x = 0 and y = 0 and s = gl_initial and fbo = 0 and dir = "-1" and rformat = 0
       and rtype = 0 and rw = 4 and rh = 4 and dst_stride = 16]
  by (simp add: gl_no_caps_def)

lemma gl_effect_upload [simp]:
  "gl_effect (TexSubImage2D target level x y w h format type data) s = s"
  by simp

lemma unpack_after_rows:
  "gl_unpack_alignment (fold gl_do
      (map (\<lambda>k. TexSubImage2D target level x (f k) w 1 format type (g k)) ks) s)
     = gl_unpack_alignment s
   \<and> gl_unpack_row_length (fold gl_do
      (map (\<lambda>k. TexSubImage2D target level x (f k) w 1 format type (g k)) ks) s)
     = gl_unpack_row_length s"
  by (induction ks arbitrary: s) (simp_all add: gl_do_def)

text \<open>
  Claim C9. After a call that performs an upload the unpack alignment is 4; with row-length
  support the unpack row length is 0, and without it the row length is the one the caller
  had. The last call issued is the reset of the alignment, preceded, with row-length
  support, by the reset of the row length.
\<close>

theorem gl_upload_tex_restores_unpack_state:
  assumes "0 < w" and "0 < h" and "gl_bytes_per_pixel format type \<noteq> 0"
    and "gl_upload_tex gl gl_bytes_per_pixel target format type stride x y w h s = Inr s'"
  shows "gl_unpack_alignment s' = 4
       \<and> (GL_cap_row_length gl \<longrightarrow> gl_unpack_row_length s' = 0)
       \<and> (\<not> GL_cap_row_length gl \<longrightarrow> gl_unpack_row_length s' = gl_unpack_row_length s)
       \<and> last (gl_calls s') = PixelStorei GL_UNPACK_ALIGNMENT 4
       \<and> (GL_cap_row_length gl \<longrightarrow>
            last (butlast (gl_calls s')) = PixelStorei GL_UNPACK_ROW_LENGTH 0)"
proof -
  have pos: "0 < stride"
    using assms by (auto simp: gl_upload_tex_def Let_def split: if_splits)
  have s': "s' = fold gl_do (upload_plan (GL_cap_row_length gl) (gl_bytes_per_pixel format type)
                              target format type stride x y w h) s"
    using assms pos by (simp add: gl_upload_tex_plan)
  have al: "get_alignment stride \<in> {1, 2, 4, 8}"
    by (simp add: get_alignment_cases)
  show ?thesis
  proof (cases "GL_cap_row_length gl")
    case True
    then show ?thesis
      using al by (simp add: s' upload_plan_def gl_do_def butlast_append)
  next
    case False
    then show ?thesis
      using al by (auto simp: s' upload_plan_def gl_do_def unpack_after_rows gl_calls_fold)
  qed
qed

theorem gl_upload_tex_restores_unpack_state_witness:
  "\<exists>s'. gl_upload_tex gl_all_caps (\<lambda>f t. 4) GL_TEXTURE_2D 0 0 20 0 0 4 4
            (gl_initial\<lparr>gl_unpack_alignment := 1, gl_unpack_row_length := 7\<rparr>) = Inr s'
     \<and> gl_unpack_alignment s' = 4 \<and> gl_unpack_row_length s' = 0"
proof -
  let ?s = "gl_initial\<lparr>gl_unpack_alignment := 1, gl_unpack_row_length := 7\<rparr>"
  obtain s' where r: "gl_upload_tex gl_all_caps (\<lambda>f t. 4) GL_TEXTURE_2D 0 0 20 0 0 4 4 ?s = Inr s'"
    by (simp add: gl_upload_tex_plan)
  have "gl_unpack_alignment s' = 4 \<and> gl_unpack_row_length s' = 0"
    using gl_upload_tex_restores_unpack_state [OF _ _ _ r] by (simp add: gl_all_caps_def)
  with r show ?thesis by blast
qed

subsection \<open>gl_read_fbo_contents\<close>

declare read_lines.simps [simp del]

lemma read_lines_rows:
  "h - y = int n \<Longrightarrow>
   read_lines format type w h dst_stride y1 dir y s =
     fold gl_do (map (\<lambda>k. ReadPixels 0 (y + int k) w 1 format type
                             ((y1 + dir * (y + int k)) * dst_stride)) [0..<n]) s"
proof (induction n arbitrary: y s)
  case 0
  then show ?case by (subst read_lines.simps) simp
next
  case (Suc n)
  from Suc.prems have step: "h - (y + 1) = int n" and cont: "y < h" by simp_all
  have shift: "map (\<lambda>k. ReadPixels 0 (y + int k) w 1 format type
                          ((y1 + dir * (y + int k)) * dst_stride)) [0..<Suc n]
             = ReadPixels 0 y w 1 format type ((y1 + dir * y) * dst_stride)
               # map (\<lambda>k. ReadPixels 0 (y + 1 + int k) w 1 format type
                             ((y1 + dir * (y + 1 + int k)) * dst_stride)) [0..<n]"
    by (simp add: upt_conv_Cons map_Suc_upt [symmetric] add.assoc add.commute del: upt_Suc)
  have unfold: "read_lines format type w h dst_stride y1 dir y s
        = read_lines format type w h dst_stride y1 dir (y + 1)
            (gl_do (ReadPixels 0 y w 1 format type ((y1 + dir * y) * dst_stride)) s)"
    using cont by (subst read_lines.simps) simp
  show ?case
    unfolding unfold Suc.IH [OF step] shift by simp
qed

lemma read_lines_none: "h \<le> 0 \<Longrightarrow> read_lines format type w h dst_stride y1 dir 0 s = s"
  by (subst read_lines.simps) simp

lemma read_lines_all:
  "read_lines format type w h dst_stride y1 dir 0 s =
     fold gl_do (map (\<lambda>k. ReadPixels 0 (int k) w 1 format type
                             ((y1 + dir * int k) * dst_stride)) [0..<nat h]) s"
proof (cases "0 \<le> h")
  case True
  then show ?thesis
    using read_lines_rows [of h 0 "nat h" format type w dst_stride y1 dir s] by simp
next
  case False
  then show ?thesis by (simp add: read_lines_none)
qed

lemma gl_read_fbo_contents_calls:
  assumes "dir = 1 \<or> dir = -1" and "\<not> (fbo = 0 \<and> GL_es gl)"
  shows "gl_read_fbo_contents gl fbo dir format type w h dst_stride s =
     Inr (True, fold gl_do
       ([BindFramebuffer fbo, PixelStorei GL_PACK_ALIGNMENT 1,
         ReadBuffer (if fbo \<noteq> 0 then GL_COLOR_ATTACHMENT0 else GL_FRONT)]
        @ map (\<lambda>k. ReadPixels 0 (int k) w 1 format type
                     (((if dir > 0 then 0 else h) + dir * int k) * dst_stride)) [0..<nat h]
        @ [PixelStorei GL_PACK_ALIGNMENT 4, BindFramebuffer 0]) s)"
  using assms by (auto simp: gl_read_fbo_contents_def read_lines_all Let_def)

lemma read_rows_map:
  "read_rows (map (\<lambda>k. ReadPixels x (f k) w h format type (g k)) ks @ cs)
     = map (\<lambda>k. (f k, g k)) ks @ read_rows cs"
  by (induction ks) simp_all

text \<open>
  What the code does for either direction: row \<open>y\<close> of the framebuffer goes to byte
  \<open>y * dst_stride\<close> when \<open>dir = 1\<close>, and to byte \<open>(h - y) * dst_stride\<close>, that is
  destination row \<open>h - y\<close>, when \<open>dir = -1\<close>.
\<close>

lemma gl_read_fbo_contents_rows:
  assumes "dir = 1 \<or> dir = -1" and "\<not> (fbo = 0 \<and> GL_es gl)"
  shows "\<exists>s'. gl_read_fbo_contents gl fbo dir format type w h dst_stride s = Inr (True, s')
           \<and> read_rows (new_calls s s')
               = map (\<lambda>k. (int k, (if dir = 1 then int k else h - int k) * dst_stride))
                   [0..<nat h]"
proof -
  let ?rows = "map (\<lambda>k. ReadPixels 0 (int k) w 1 format type
                     (((if dir > 0 then 0 else h) + dir * int k) * dst_stride)) [0..<nat h]"
  let ?cs = "[BindFramebuffer fbo, PixelStorei GL_PACK_ALIGNMENT 1,
              ReadBuffer (if fbo \<noteq> 0 then GL_COLOR_ATTACHMENT0 else GL_FRONT)]
             @ ?rows @ [PixelStorei GL_PACK_ALIGNMENT 4, BindFramebuffer 0]"
  have r: "gl_read_fbo_contents gl fbo dir format type w h dst_stride s
             = Inr (True, fold gl_do ?cs s)"
    using assms by (rule gl_read_fbo_contents_calls)
  have n: "new_calls s (fold gl_do ?cs s) = ?cs"
    by (rule new_calls_fold)
  have "read_rows ?cs = read_rows (?rows @ [PixelStorei GL_PACK_ALIGNMENT 4, BindFramebuffer 0])"
    by simp
  also have "\<dots> = map (\<lambda>k. (int k, ((if dir > 0 then 0 else h) + dir * int k) * dst_stride))
                      [0..<nat h]"
    by (simp only: read_rows_map) simp
  also have "\<dots> = map (\<lambda>k. (int k, (if dir = 1 then int k else h - int k) * dst_stride))
                      [0..<nat h]"
    using assms(1) by auto
  finally show ?thesis using r n by simp
qed

lemma upt_2: "[0..<2] = [0, 1]"
  by (simp add: upt_rec)

text \<open>
  Claim C5, at a flipped read-back of two rows into a destination of stride 8. The claim
  puts framebuffer row 0 at destination row 1 (byte 8) and row 1 at destination row 0
  (byte 0). The code writes row 0 at byte 16, which is destination row 2 and outside the
  two rows of the destination, and row 1 at byte 8; destination row 0 is never written.
\<close>

theorem gl_read_fbo_contents_flip_off_by_one:
  "\<exists>s'. gl_read_fbo_contents gl_all_caps 1 (-1) 0 0 2 2 8 gl_initial = Inr (True, s')
     \<and> read_rows (new_calls gl_initial s') = [(0, 16), (1, 8)]
     \<and> read_rows (new_calls gl_initial s') \<noteq> [(0, (2 - 1 - 0) * 8), (1, (2 - 1 - 1) * 8)]"
proof -
  have "(-1::int) = 1 \<or> (-1::int) = -1" and "\<not> ((1::int) = 0 \<and> GL_es gl_all_caps)"
    by simp_all
  from gl_read_fbo_contents_rows [OF this, of 0 0 2 2 8 gl_initial]
  show ?thesis by (auto simp: upt_2)
qed

subsection \<open>gl_vao_unbind\<close>

declare disable_attribs_loop.simps [simp del]

lemma disable_attribs_loop_calls:
  "num_entries - n = int m \<Longrightarrow>
   disable_attribs_loop num_entries n s =
     fold gl_do (map (\<lambda>k. DisableVertexAttribArray (n + int k)) [0..<m]) s"
proof (induction m arbitrary: n s)
  case 0
  then show ?case by (subst disable_attribs_loop.simps) simp
next
  case (Suc m)
  from Suc.prems have step: "num_entries - (n + 1) = int m" and cont: "n < num_entries"
    by simp_all
  have shift: "map (\<lambda>k. DisableVertexAttribArray (n + int k)) [0..<Suc m]
             = DisableVertexAttribArray n
               # map (\<lambda>k. DisableVertexAttribArray (n + 1 + int k)) [0..<m]"
    by (simp add: upt_conv_Cons map_Suc_upt [symmetric] add.assoc add.commute del: upt_Suc)
  have unfold: "disable_attribs_loop num_entries n s
        = disable_attribs_loop num_entries (n + 1) (gl_do (DisableVertexAttribArray n) s)"
    using cont by (subst disable_attribs_loop.simps) simp
  show ?case
    unfolding unfold Suc.IH [OF step] shift by simp
qed

lemma disable_attribs_loop_all:
  "disable_attribs_loop num_entries 0 s =
     fold gl_do (map (\<lambda>k. DisableVertexAttribArray (int k)) [0..<nat num_entries]) s"
proof (cases "0 \<le> num_entries")
  case True
  then show ?thesis
    using disable_attribs_loop_calls [of num_entries 0 "nat num_entries" s] by simp
next
  case False
  then show ?thesis by (subst disable_attribs_loop.simps) simp
qed

lemma fold_disable_state:
  "fold gl_do (map (\<lambda>k. DisableVertexAttribArray (int k)) ks) s =
     s\<lparr>gl_attrib_enabled := (gl_attrib_enabled s)
          (gl_vertex_array s := gl_attrib_enabled s (gl_vertex_array s) - int ` set ks),
       gl_calls := gl_calls s @ map (\<lambda>k. DisableVertexAttribArray (int k)) ks\<rparr>"
proof (induction ks arbitrary: s)
  case Nil
  then show ?case by simp
next
  case (Cons k ks)
  have set_eq: "A - {int k} - int ` set ks = A - insert (int k) (int ` set ks)" for A
    by blast
  have one: "gl_do (DisableVertexAttribArray (int k)) s =
     s\<lparr>gl_attrib_enabled := (gl_attrib_enabled s)
          (gl_vertex_array s := gl_attrib_enabled s (gl_vertex_array s) - {int k}),
       gl_calls := gl_calls s @ [DisableVertexAttribArray (int k)]\<rparr>"
    by (simp add: gl_do_def)
  have "fold gl_do (map (\<lambda>k. DisableVertexAttribArray (int k)) (k # ks)) s
      = fold gl_do (map (\<lambda>k. DisableVertexAttribArray (int k)) ks)
          (gl_do (DisableVertexAttribArray (int k)) s)"
    by simp
  also have "\<dots> = s\<lparr>gl_attrib_enabled := (gl_attrib_enabled s)
          (gl_vertex_array s := gl_attrib_enabled s (gl_vertex_array s) - int ` set (k # ks)),
       gl_calls := gl_calls s @ map (\<lambda>k. DisableVertexAttribArray (int k)) (k # ks)\<rparr>"
    unfolding Cons.IH unfolding one by (simp add: set_eq)
  finally show ?case .
qed

lemma gl_vao_unbind_fallback:
  assumes "\<not> GL_has_BindVertexArray (vao_gl vao)"
  shows "gl_vao_unbind vao s =
     s\<lparr>gl_attrib_enabled := (gl_attrib_enabled s)
          (gl_vertex_array s := gl_attrib_enabled s (gl_vertex_array s)
                                 - int ` {0..<nat (vao_num_entries vao)}),
       gl_calls := gl_calls s @ map (\<lambda>k. DisableVertexAttribArray (int k))
                                  [0..<nat (vao_num_entries vao)]\<rparr>"
  using assms by (simp add: gl_vao_unbind_def disable_attribs_loop_all fold_disable_state)

lemma gl_vao_unbind_vao:
  assumes "GL_has_BindVertexArray (vao_gl vao)"
  shows "gl_vao_unbind vao s =
     s\<lparr>gl_vertex_array := 0, gl_calls := gl_calls s @ [BindVertexArray 0]\<rparr>"
  using assms by (simp add: gl_vao_unbind_def gl_do_def)

text \<open>
  Claim C7. On either path a second unbind leaves the context state (everything but the
  call log) as the first left it. On the vertex-array path the unbind binds vertex array 0
  and touches no attribute enable, so the attribute arrays in effect are those of vertex
  array 0. On the fallback path it issues one disable for every index from 0 to
  \<open>num_entries - 1\<close>, and afterwards none of these indices is enabled.
\<close>

theorem gl_vao_unbind_idempotent:
  "gl_without_log (gl_vao_unbind vao (gl_vao_unbind vao s)) = gl_without_log (gl_vao_unbind vao s)
   \<and> (if GL_has_BindVertexArray (vao_gl vao)
      then gl_vertex_array (gl_vao_unbind vao s) = 0
           \<and> gl_attrib_enabled (gl_vao_unbind vao s) = gl_attrib_enabled s
           \<and> gl_current_attribs (gl_vao_unbind vao s) = gl_attrib_enabled s 0
      else new_calls s (gl_vao_unbind vao s)
             = map (\<lambda>k. DisableVertexAttribArray (int k)) [0..<nat (vao_num_entries vao)]
           \<and> (\<forall>n. 0 \<le> n \<and> n < vao_num_entries vao
                  \<longrightarrow> n \<notin> gl_current_attribs (gl_vao_unbind vao s)))"
proof (cases "GL_has_BindVertexArray (vao_gl vao)")
  case True
  then show ?thesis
    by (simp add: gl_vao_unbind_vao gl_without_log_def gl_current_attribs_def)
next
  case False
  have idem: "A - X - X = A - X" for A X :: "int set" by blast
  have mem: "n \<in> int ` {0..<nat (vao_num_entries vao)}"
    if "0 \<le> n" "n < vao_num_entries vao" for n
    using that by (intro image_eqI [where x = "nat n"]) simp_all
  have "gl_without_log (gl_vao_unbind vao (gl_vao_unbind vao s))
          = gl_without_log (gl_vao_unbind vao s)"
    using False by (simp add: gl_vao_unbind_fallback gl_without_log_def idem)
  moreover have "new_calls s (gl_vao_unbind vao s)
        = map (\<lambda>k. DisableVertexAttribArray (int k)) [0..<nat (vao_num_entries vao)]"
    using False by (simp add: gl_vao_unbind_fallback new_calls_def)
  moreover have "\<forall>n. 0 \<le> n \<and> n < vao_num_entries vao
                  \<longrightarrow> n \<notin> gl_current_attribs (gl_vao_unbind vao s)"
    using False mem by (simp add: gl_vao_unbind_fallback gl_current_attribs_def)
  ultimately show ?thesis using False by simp
qed

theorem gl_vao_unbind_idempotent_witness:
  "(0::int) \<le> 1 \<and> 1 < vao_num_entries vao_example
   \<and> 1 \<notin> gl_current_attribs
           (gl_vao_unbind vao_example (gl_initial\<lparr>gl_attrib_enabled := (\<lambda>a. {0, 1, 2, 5})\<rparr>))
   \<and> gl_without_log (gl_vao_unbind vao_example (gl_vao_unbind vao_example
           (gl_initial\<lparr>gl_attrib_enabled := (\<lambda>a. {0, 1, 2, 5})\<rparr>)))
       = gl_without_log (gl_vao_unbind vao_example
           (gl_initial\<lparr>gl_attrib_enabled := (\<lambda>a. {0, 1, 2, 5})\<rparr>))"
proof -
  let ?s = "gl_initial\<lparr>gl_attrib_enabled := (\<lambda>a. {0, 1, 2, 5})\<rparr>"
  have fb: "\<not> GL_has_BindVertexArray (vao_gl vao_example)"
    by (simp add: vao_example_def gl_no_caps_def)
  have n: "vao_num_entries vao_example = 3"
    by (simp add: vao_example_def)
  from gl_vao_unbind_idempotent [of vao_example ?s] fb
  have idem: "gl_without_log (gl_vao_unbind vao_example (gl_vao_unbind vao_example ?s))
                = gl_without_log (gl_vao_unbind vao_example ?s)"
    and off: "\<forall>n. 0 \<le> n \<and> n < vao_num_entries vao_example
                \<longrightarrow> n \<notin> gl_current_attribs (gl_vao_unbind vao_example ?s)"
    by simp_all
  from off n have "1 \<notin> gl_current_attribs (gl_vao_unbind vao_example ?s)"
    by simp
  with idem n show ?thesis by simp
qed

lemma gl_vao_unbind_example:
  "gl_current_attribs
     (gl_vao_unbind vao_example (gl_initial\<lparr>gl_attrib_enabled := (\<lambda>a. {0, 1, 2, 5})\<rparr>)) = {5}"
proof -
  have fb: "\<not> GL_has_BindVertexArray (vao_gl vao_example)"
    by (simp add: vao_example_def gl_no_caps_def)
  have img: "int ` {0..<3} = {0, 1, 2}"
    by (auto simp: image_iff)
  have n: "vao_num_entries vao_example = 3"
    by (simp add: vao_example_def)
  show ?thesis
    unfolding gl_vao_unbind_fallback [OF fb] n
    by (simp add: gl_current_attribs_def gl_initial_def img)
qed

subsection \<open>mp_create_side_data_from_buf\<close>

lemma side_data_overflow_check:
  assumes "- (2 ^ 31) \<le> n" and "n \<le> INT_MAX"
  shows "to_size_t n > to_size_t (to_size_t INT_MAX div sizeof_pointer - 1)
           \<longleftrightarrow> n < 0 \<or> n > 268435454"
proof -
  have bound: "to_size_t (to_size_t INT_MAX div sizeof_pointer - 1) = 268435454"
    by (simp add: to_size_t_def INT_MAX_def sizeof_pointer_def)
  show ?thesis
  proof (cases "n < 0")
    case True
    have "n mod 2 ^ 64 = (n + 2 ^ 64) mod 2 ^ 64"
      by simp
    also have "\<dots> = n + 2 ^ 64"
      using assms(1) True by (intro mod_pos_pos_trivial) simp_all
    finally have "to_size_t n = n + 2 ^ 64"
      by (simp add: to_size_t_def)
    then show ?thesis using True assms(1) by (simp add: bound)
  next
    case False
    then have "to_size_t n = n"
      using assms(2) by (simp add: to_size_t_def INT_MAX_def)
    then show ?thesis using False by (simp add: bound)
  qed
qed

text \<open>
  Claim C10. For a frame whose entry count is a C int: the function returns NULL exactly
  when \<open>buf\<close> is NULL, the count fails the overflow check (it is negative or above
  \<open>INT_MAX / 8 - 1\<close>), or one of the two allocations fails. With NULL \<open>buf\<close> nothing
  changes. On every other failure the passed reference is released, once, by the function
  itself, and count and entries of the frame stay as they were. On success the new entry
  is returned, it carries the type passed in and the buffer with its data and size, it is
  stored at the old count, the count grows by one, and the reference is not released.
\<close>

theorem mp_create_side_data_from_buf_result:
  assumes "- (2 ^ 31) \<le> AVFrame_nb_side_data frame"
    and "AVFrame_nb_side_data frame \<le> INT_MAX"
    and "mp_create_side_data_from_buf av_realloc_ok av_mallocz_ok frame type buf_opt unreffed
           = (ret, frame', unreffed')"
  shows "(ret = None \<longleftrightarrow>
            buf_opt = None \<or> AVFrame_nb_side_data frame < 0
            \<or> AVFrame_nb_side_data frame > 268435454
            \<or> \<not> av_realloc_ok \<or> \<not> av_mallocz_ok)
       \<and> (buf_opt = None \<longrightarrow> frame' = frame \<and> unreffed' = unreffed)
       \<and> (\<forall>buf. buf_opt = Some buf \<and> ret = None \<longrightarrow>
              unreffed' = unreffed @ [buf]
              \<and> AVFrame_nb_side_data frame' = AVFrame_nb_side_data frame
              \<and> AVFrame_side_data frame' = AVFrame_side_data frame)
       \<and> (\<forall>buf. buf_opt = Some buf \<and> ret \<noteq> None \<longrightarrow>
              ret = Some \<lparr>AVFrameSideData_type = type,
                          AVFrameSideData_data = AVBufferRef_data buf,
                          AVFrameSideData_size = AVBufferRef_size buf,
                          AVFrameSideData_buf = buf\<rparr>
              \<and> AVFrame_nb_side_data frame' = AVFrame_nb_side_data frame + 1
              \<and> AVFrame_side_data frame'
                  = (AVFrame_side_data frame)(AVFrame_nb_side_data frame := ret)
              \<and> unreffed' = unreffed)"
proof (cases buf_opt)
  case None
  then show ?thesis
    using assms(3) by (simp add: mp_create_side_data_from_buf_def)
next
  case (Some buf)
  note chk = side_data_overflow_check [OF assms(1,2)]
  show ?thesis
  proof (cases "AVFrame_nb_side_data frame < 0 \<or> AVFrame_nb_side_data frame > 268435454
                \<or> \<not> av_realloc_ok \<or> \<not> av_mallocz_ok")
    case True
    then show ?thesis
      using assms(3) Some chk
      by (auto simp: mp_create_side_data_from_buf_def Let_def split: if_splits)
  next
    case False
    then show ?thesis
      using assms(3) Some chk
      by (auto simp: mp_create_side_data_from_buf_def Let_def split: if_splits)
  qed
qed

theorem mp_create_side_data_from_buf_result_witness:
  "- (2 ^ 31) \<le> AVFrame_nb_side_data frame_example
   \<and> AVFrame_nb_side_data frame_example \<le> INT_MAX
   \<and> (\<exists>e f. mp_create_side_data_from_buf True True frame_example 7 (Some buf_example) []
               = (Some e, f, [])
            \<and> AVFrameSideData_buf e = buf_example \<and> AVFrameSideData_type e = 7
            \<and> AVFrame_nb_side_data f = 1 \<and> AVFrame_side_data f 0 = Some e)
   \<and> (\<exists>f. mp_create_side_data_from_buf True False frame_example 7 (Some buf_example) []
               = (None, f, [buf_example])
            \<and> AVFrame_nb_side_data f = 0)"
proof -
  have lo: "- (2 ^ 31) \<le> AVFrame_nb_side_data frame_example"
    and hi: "AVFrame_nb_side_data frame_example \<le> INT_MAX"
    by (simp_all add: frame_example_def INT_MAX_def)
  obtain r f u where ok:
    "mp_create_side_data_from_buf True True frame_example 7 (Some buf_example) [] = (r, f, u)"
    by (metis prod_cases3)
  obtain r' f' u' where bad:
    "mp_create_side_data_from_buf True False frame_example 7 (Some buf_example) [] = (r', f', u')"
    by (metis prod_cases3)
  have n0: "AVFrame_nb_side_data frame_example = 0"
    by (simp add: frame_example_def)
  from mp_create_side_data_from_buf_result [OF lo hi ok]
  have "\<exists>e. r = Some e \<and> AVFrameSideData_buf e = buf_example \<and> AVFrameSideData_type e = 7
           \<and> AVFrame_nb_side_data f = 1 \<and> AVFrame_side_data f 0 = Some e \<and> u = []"
    by (auto simp: n0)
  moreover from mp_create_side_data_from_buf_result [OF lo hi bad]
  have "r' = None \<and> u' = [buf_example] \<and> AVFrame_nb_side_data f' = 0"
    by (auto simp: n0)
  ultimately show ?thesis
    using lo hi ok bad by auto
qed

subsection \<open>gui_run: the phases\<close>

lemma gl_do_query [simp]:
  "gl_do (GetIntegerv p) s = s\<lparr>gl_calls := gl_calls s @ [GetIntegerv p]\<rparr>"
  "gl_do (GetIntegerv4 q) s = s\<lparr>gl_calls := gl_calls s @ [GetIntegerv4 q]\<rparr>"
  "gl_do (IsEnabled c) s = s\<lparr>gl_calls := gl_calls s @ [IsEnabled c]\<rparr>"
  "gl_do (GetUniformLocation n l) s = s\<lparr>gl_calls := gl_calls s @ [GetUniformLocation n l]\<rparr>"
  by (simp_all add: gl_do_def)

lemma gl_do_ActiveTexture0 [simp]:
  "gl_do (ActiveTexture GL_TEXTURE0) s =
     s\<lparr>gl_active_unit := 0, gl_calls := gl_calls s @ [ActiveTexture GL_TEXTURE0]\<rparr>"
  by (simp add: gl_do_def)

lemma gui_backup_result:
  "gui_backup g s =
     (g\<lparr>g_AttribLocationTex := gl_uniform_location s (g_ShaderHandle g) ''Texture'',
        g_AttribLocationProjMtx := gl_uniform_location s (g_ShaderHandle g) ''ProjMtx''\<rparr>,
      (gl_snapshot s)\<lparr>last_texture := gl_texture_2d s 0\<rparr>,
      fold gl_do (gui_backup_calls g) s)"
  by (simp add: gui_backup_def gui_backup_calls_def gl_snapshot_def gl_GetIntegerv_def
      gl_GetIntegerv4_def gl_IsEnabled_def gl_GetUniformLocation_def)

lemma gl_do_keeps_unit:
  "\<not> is_ActiveTexture c \<Longrightarrow>
   gl_active_unit (gl_do c s) = gl_active_unit s
   \<and> (\<forall>u. u \<noteq> gl_active_unit s \<longrightarrow> gl_texture_2d (gl_do c s) u = gl_texture_2d s u)"
proof (cases c)
  case (PixelStorei p v)
  then show ?thesis by (cases p) (simp_all add: gl_do_def)
next
  case (BindBuffer t b)
  then show ?thesis by (cases t) (simp_all add: gl_do_def)
qed (simp_all add: gl_do_def)

lemma fold_keeps_unit:
  "\<forall>c \<in> set cs. \<not> is_ActiveTexture c \<Longrightarrow>
   gl_active_unit (fold gl_do cs s) = gl_active_unit s
   \<and> (\<forall>u. u \<noteq> gl_active_unit s \<longrightarrow> gl_texture_2d (fold gl_do cs s) u = gl_texture_2d s u)"
proof (induction cs arbitrary: s)
  case Nil
  then show ?case by simp
next
  case (Cons c cs)
  then have c: "\<not> is_ActiveTexture c" and cs: "\<forall>c \<in> set cs. \<not> is_ActiveTexture c"
    by simp_all
  from gl_do_keeps_unit [OF c, of s] Cons.IH [OF cs, of "gl_do c s"]
  show ?case by simp
qed

lemma gui_restore_state:
  fixes sv :: gui_saved and vao_handle :: int and t :: gl_state
  assumes unit: "gl_active_unit t = 0"
    and act: "GL_TEXTURE0 \<le> last_active_texture sv"
    and vp: "last_viewport sv = (vx, vy, vw, vh)" "0 \<le> vw" "0 \<le> vh"
    and sc: "last_scissor_box sv = (sx, sy, sw, sh)" "0 \<le> sw" "0 \<le> sh"
  defines "r \<equiv> fold gl_do (gui_restore_calls sv vao_handle) t"
  shows "gl_active_unit r = nat (last_active_texture sv - GL_TEXTURE0)"
    and "gl_program r = last_program sv"
    and "gl_texture_2d r = (gl_texture_2d t)(0 := last_texture sv)"
    and "gl_array_buffer r = last_array_buffer sv"
    and "gl_vertex_array r = last_vertex_array sv"
    and "gl_viewport r = last_viewport sv"
    and "gl_scissor_box r = last_scissor_box sv"
    and "gl_blend_src_rgb r = last_blend_src_rgb sv"
    and "gl_blend_dst_rgb r = last_blend_dst_rgb sv"
    and "gl_blend_src_alpha r = last_blend_src_alpha sv"
    and "gl_blend_dst_alpha r = last_blend_dst_alpha sv"
    and "gl_blend_equation_rgb r = last_blend_equation_rgb sv"
    and "gl_blend_equation_alpha r = last_blend_equation_alpha sv"
    and "gl_enabled r GL_BLEND = last_enable_blend sv"
    and "gl_enabled r GL_CULL_FACE = last_enable_cull_face sv"
    and "gl_enabled r GL_DEPTH_TEST = last_enable_depth_test sv"
    and "gl_enabled r GL_SCISSOR_TEST = last_enable_scissor_test sv"
  unfolding r_def gui_restore_calls_def
  using unit act vp sc
  by (simp_all add: gl_do_def)

lemma issued_draws_append:
  "\<exists>sc' tex'. issued_draws sc tex (xs @ ys) = issued_draws sc tex xs @ issued_draws sc' tex' ys"
proof (induction xs arbitrary: sc tex)
  case Nil
  show ?case by (rule exI [of _ sc], rule exI [of _ tex]) simp
next
  case (Cons c xs)
  show ?case
  proof (cases c)
    case (Scissor vx vy vw vh)
    then show ?thesis using Cons.IH [of "(vx, vy, vw, vh)" tex] by simp
  next
    case (BindTexture t)
    then show ?thesis using Cons.IH [of sc t] by simp
  next
    case (DrawElements n off)
    then show ?thesis using Cons.IH [of sc tex] by auto
  qed (use Cons.IH [of sc tex] in simp_all)
qed

lemma issued_draws_none:
  "\<forall>c \<in> set cs. \<not> is_DrawElements c \<Longrightarrow> issued_draws sc tex cs = []"
proof (induction cs arbitrary: sc tex)
  case Nil
  show ?case by simp
next
  case (Cons c cs)
  then show ?case by (cases c) simp_all
qed

lemma issued_draws_after:
  assumes "\<forall>c \<in> set xs. \<not> is_DrawElements c"
    and "\<forall>sc tex. issued_draws sc tex ys = ds"
  shows "issued_draws sc tex (xs @ ys) = ds"
proof -
  obtain sc' tex' where
    "issued_draws sc tex (xs @ ys) = issued_draws sc tex xs @ issued_draws sc' tex' ys"
    using issued_draws_append by blast
  then show ?thesis
    using assms by (simp add: issued_draws_none)
qed

lemma issued_draws_before:
  assumes "\<forall>sc tex. issued_draws sc tex xs = ds"
    and "\<forall>sc tex. issued_draws sc tex ys = es"
  shows "issued_draws sc tex (xs @ ys) = ds @ es"
proof -
  obtain sc' tex' where
    "issued_draws sc tex (xs @ ys) = issued_draws sc tex xs @ issued_draws sc' tex' ys"
    using issued_draws_append by blast
  then show ?thesis
    using assms by simp
qed

lemma gui_draw_cmds_calls:
  "\<exists>cs. gui_draw_cmds pos fb_width fb_height cmds off t = fold gl_do cs t
      \<and> (\<forall>c \<in> set cs. \<not> is_ActiveTexture c)
      \<and> (\<forall>sc tex. issued_draws sc tex cs
            = map (cmd_draw pos fb_height) (filter (cmd_drawn pos fb_width fb_height) cmds))"
proof (induction cmds arbitrary: off t)
  case Nil
  show ?case by (rule exI [of _ "[]"]) simp
next
  case (Cons c cmds)
  show ?case
  proof (cases "cmd_drawn pos fb_width fb_height c")
    case True
    let ?clip = "translated_clip pos c"
    let ?triple = "[Scissor (c_int_of_float (ImVec4_x ?clip))
                      (c_int_of_float (f32_sub (c_float_of_int fb_height) (ImVec4_w ?clip)))
                      (c_int_of_float (f32_sub (ImVec4_z ?clip) (ImVec4_x ?clip)))
                      (c_int_of_float (f32_sub (ImVec4_w ?clip) (ImVec4_y ?clip))),
                    BindTexture (TextureId c), DrawElements (ElemCount c) off]"
    obtain cs where cs:
      "gui_draw_cmds pos fb_width fb_height cmds (off + ElemCount c) (fold gl_do ?triple t)
         = fold gl_do cs (fold gl_do ?triple t)"
      "\<forall>c \<in> set cs. \<not> is_ActiveTexture c"
      "\<forall>sc tex. issued_draws sc tex cs
         = map (cmd_draw pos fb_height) (filter (cmd_drawn pos fb_width fb_height) cmds)"
      using Cons.IH by blast
    have run: "gui_draw_cmds pos fb_width fb_height (c # cmds) off t
                 = fold gl_do (?triple @ cs) t"
      using True cs(1)
      by (simp add: cmd_drawn_def clip_accepted_def translated_clip_def
          clip_origin_lower_left_def Let_def)
    have "\<forall>sc tex. issued_draws sc tex (?triple @ cs)
            = map (cmd_draw pos fb_height)
                (filter (cmd_drawn pos fb_width fb_height) (c # cmds))"
      using True cs(3) by (simp add: cmd_draw_def clip_scissor_def)
    with run cs(2) show ?thesis
      by (intro exI [of _ "?triple @ cs"]) simp
  next
    case False
    obtain cs where cs:
      "gui_draw_cmds pos fb_width fb_height cmds off t = fold gl_do cs t"
      "\<forall>c \<in> set cs. \<not> is_ActiveTexture c"
      "\<forall>sc tex. issued_draws sc tex cs
         = map (cmd_draw pos fb_height) (filter (cmd_drawn pos fb_width fb_height) cmds)"
      using Cons.IH by blast
    obtain cs' where cs':
      "gui_draw_cmds pos fb_width fb_height cmds (off + ElemCount c) t = fold gl_do cs' t"
      "\<forall>c \<in> set cs'. \<not> is_ActiveTexture c"
      "\<forall>sc tex. issued_draws sc tex cs'
         = map (cmd_draw pos fb_height) (filter (cmd_drawn pos fb_width fb_height) cmds)"
      using Cons.IH by blast
    show ?thesis
    proof (cases "UserCallback c = None")
      case True
      with False have "gui_draw_cmds pos fb_width fb_height (c # cmds) off t = fold gl_do cs' t"
        using cs'(1)
        by (auto simp: cmd_drawn_def clip_accepted_def translated_clip_def Let_def)
      with cs' False show ?thesis
        by (intro exI [of _ cs']) simp
    next
      case cb: False
      then have "gui_draw_cmds pos fb_width fb_height (c # cmds) off t = fold gl_do cs t"
        using cs(1) by (simp add: Let_def)
      with cs False show ?thesis
        by (intro exI [of _ cs]) simp
    qed
  qed
qed

lemma gui_draw_lists_calls:
  "\<exists>cs. gui_draw_lists g pos fb_width fb_height cls t = fold gl_do cs t
      \<and> (\<forall>c \<in> set cs. \<not> is_ActiveTexture c)
      \<and> (\<forall>sc tex. issued_draws sc tex cs
            = map (cmd_draw pos fb_height)
                (filter (cmd_drawn pos fb_width fb_height) (concat (map CmdBuffer cls))))"
proof (induction cls arbitrary: t)
  case Nil
  show ?case by (rule exI [of _ "[]"]) simp
next
  case (Cons cl cls)
  let ?bufs = "[BindBuffer GL_ARRAY_BUFFER (g_VboHandle g),
                BufferData GL_ARRAY_BUFFER (VtxBuffer_Size cl),
                BindBuffer GL_ELEMENT_ARRAY_BUFFER (g_ElementsHandle g),
                BufferData GL_ELEMENT_ARRAY_BUFFER (IdxBuffer_Size cl)]"
  let ?t1 = "fold gl_do ?bufs t"
  obtain cs1 where cs1:
    "gui_draw_cmds pos fb_width fb_height (CmdBuffer cl) 0 ?t1 = fold gl_do cs1 ?t1"
    "\<forall>c \<in> set cs1. \<not> is_ActiveTexture c"
    "\<forall>sc tex. issued_draws sc tex cs1
       = map (cmd_draw pos fb_height) (filter (cmd_drawn pos fb_width fb_height) (CmdBuffer cl))"
    using gui_draw_cmds_calls by blast
  let ?t2 = "fold gl_do cs1 ?t1"
  obtain cs2 where cs2:
    "gui_draw_lists g pos fb_width fb_height cls ?t2 = fold gl_do cs2 ?t2"
    "\<forall>c \<in> set cs2. \<not> is_ActiveTexture c"
    "\<forall>sc tex. issued_draws sc tex cs2
       = map (cmd_draw pos fb_height)
           (filter (cmd_drawn pos fb_width fb_height) (concat (map CmdBuffer cls)))"
    using Cons.IH by blast
  have run: "gui_draw_lists g pos fb_width fb_height (cl # cls) t
               = fold gl_do (?bufs @ cs1 @ cs2) t"
    using cs1(1) cs2(1) by (simp add: Let_def)
  have act: "\<forall>c \<in> set (?bufs @ cs1 @ cs2). \<not> is_ActiveTexture c"
    using cs1(2) cs2(2) by auto
  have inner: "\<forall>sc tex. issued_draws sc tex (cs1 @ cs2)
       = map (cmd_draw pos fb_height) (filter (cmd_drawn pos fb_width fb_height) (CmdBuffer cl))
         @ map (cmd_draw pos fb_height)
             (filter (cmd_drawn pos fb_width fb_height) (concat (map CmdBuffer cls)))"
    using issued_draws_before [OF cs1(3) cs2(3)] by blast
  have "\<forall>sc tex. issued_draws sc tex (?bufs @ cs1 @ cs2)
       = map (cmd_draw pos fb_height)
           (filter (cmd_drawn pos fb_width fb_height) (concat (map CmdBuffer (cl # cls))))"
    using inner by simp
  with run act show ?case
    by (intro exI [of _ "?bufs @ cs1 @ cs2"] conjI)
qed

lemma gui_setup_result:
  assumes "GL_has_GenVertexArrays gl" and "GL_has_BindVertexArray gl"
  shows "\<exists>vao_handle cs. gui_setup gl lay g draw_data fb_width fb_height s
                            = Inr (vao_handle, fold gl_do cs s)
           \<and> (\<forall>c \<in> set cs. \<not> is_ActiveTexture c \<and> \<not> is_DrawElements c)"
proof -
  let ?a = "[Enable GL_BLEND,
             BlendEquation GL_FUNC_ADD,
             BlendFunc GL_SRC_ALPHA GL_ONE_MINUS_SRC_ALPHA,
             Disable GL_CULL_FACE,
             Disable GL_DEPTH_TEST,
             Enable GL_SCISSOR_TEST,
             Viewport 0 0 fb_width fb_height,
             UseProgram (g_ShaderHandle g),
             Uniform1i (g_AttribLocationTex g) 0,
             UniformMatrix4fv (g_AttribLocationProjMtx g) (ortho_projection draw_data)]"
  let ?v = "fresh_name (gl_vertex_arrays (fold gl_do ?a s))"
  let ?b = "[BindVertexArray ?v,
             BindBuffer GL_ARRAY_BUFFER (g_VboHandle g),
             EnableVertexAttribArray (g_AttribLocationPosition g),
             EnableVertexAttribArray (g_AttribLocationUV g),
             EnableVertexAttribArray (g_AttribLocationColor g),
             VertexAttribPointer (g_AttribLocationPosition g) 2 GL_FLOAT False
               (sizeof_ImDrawVert lay) (offsetof_pos lay),
             VertexAttribPointer (g_AttribLocationUV g) 2 GL_FLOAT False
               (sizeof_ImDrawVert lay) (offsetof_uv lay),
             VertexAttribPointer (g_AttribLocationColor g) 4 GL_UNSIGNED_BYTE True
               (sizeof_ImDrawVert lay) (offsetof_col lay)]"
  have "gui_setup gl lay g draw_data fb_width fb_height s
          = Inr (?v, fold gl_do ?b (gl_do GenVertexArrays (fold gl_do ?a s)))"
    using assms unfolding gui_setup_def gl_GenVertexArrays_def Let_def by simp
  also have "fold gl_do ?b (gl_do GenVertexArrays (fold gl_do ?a s))
               = fold gl_do (?a @ [GenVertexArrays] @ ?b) s"
    by (simp only: fold_append fold_simps comp_def id_apply)
  finally have "gui_setup gl lay g draw_data fb_width fb_height s
                  = Inr (?v, fold gl_do (?a @ [GenVertexArrays] @ ?b) s)" .
  moreover have "\<forall>c \<in> set (?a @ [GenVertexArrays] @ ?b).
                   \<not> is_ActiveTexture c \<and> \<not> is_DrawElements c"
    by simp
  ultimately show ?thesis by blast
qed

lemma gui_run_early:
  "gui_run vao lay io None g s = Inr (g, s)"
  "gui_fb_width io draw_data \<le> 0 \<or> gui_fb_height io draw_data \<le> 0 \<Longrightarrow>
     gui_run vao lay io (Some draw_data) g s = Inr (g, s)"
  by (auto simp: gui_run_def gui_fb_width_def gui_fb_height_def Let_def)

lemma gui_run_result:
  assumes gen: "GL_has_GenVertexArrays (vao_gl vao)"
    and bind: "GL_has_BindVertexArray (vao_gl vao)"
    and del: "GL_has_DeleteVertexArrays (vao_gl vao)"
    and w: "0 < gui_fb_width io draw_data" and h: "0 < gui_fb_height io draw_data"
  shows "\<exists>vao_handle mid.
           gui_run vao lay io (Some draw_data) g s =
             Inr (g\<lparr>g_AttribLocationTex := gl_uniform_location s (g_ShaderHandle g) ''Texture'',
                    g_AttribLocationProjMtx :=
                      gl_uniform_location s (g_ShaderHandle g) ''ProjMtx''\<rparr>,
                  fold gl_do
                    (gui_backup_calls g @ mid
                     @ gui_restore_calls ((gl_snapshot s)\<lparr>last_texture := gl_texture_2d s 0\<rparr>)
                         vao_handle) s)
           \<and> (\<forall>c \<in> set mid. \<not> is_ActiveTexture c)
           \<and> (\<forall>sc tex. issued_draws sc tex mid
                 = map (cmd_draw (DisplayPos draw_data) (gui_fb_height io draw_data))
                     (filter (cmd_drawn (DisplayPos draw_data) (gui_fb_width io draw_data)
                                (gui_fb_height io draw_data))
                        (all_cmds draw_data)))"
proof -
  let ?g1 = "g\<lparr>g_AttribLocationTex := gl_uniform_location s (g_ShaderHandle g) ''Texture'',
               g_AttribLocationProjMtx := gl_uniform_location s (g_ShaderHandle g) ''ProjMtx''\<rparr>"
  let ?sv = "(gl_snapshot s)\<lparr>last_texture := gl_texture_2d s 0\<rparr>"
  let ?s1 = "fold gl_do (gui_backup_calls g) s"
  let ?fw = "gui_fb_width io draw_data" and ?fh = "gui_fb_height io draw_data"
  obtain vh cs2 where stp:
    "gui_setup (vao_gl vao) lay ?g1 draw_data ?fw ?fh ?s1 = Inr (vh, fold gl_do cs2 ?s1)"
    "\<forall>c \<in> set cs2. \<not> is_ActiveTexture c \<and> \<not> is_DrawElements c"
    using gui_setup_result [OF gen bind] by blast
  let ?s2 = "fold gl_do cs2 ?s1"
  obtain cs3 where draw:
    "gui_draw_lists ?g1 (DisplayPos draw_data) ?fw ?fh (CmdLists draw_data) ?s2
       = fold gl_do cs3 ?s2"
    "\<forall>c \<in> set cs3. \<not> is_ActiveTexture c"
    "\<forall>sc tex. issued_draws sc tex cs3
       = map (cmd_draw (DisplayPos draw_data) ?fh)
           (filter (cmd_drawn (DisplayPos draw_data) ?fw ?fh)
              (concat (map CmdBuffer (CmdLists draw_data))))"
    using gui_draw_lists_calls by blast
  have run: "gui_run vao lay io (Some draw_data) g s =
               Inr (?g1, fold gl_do (gui_restore_calls ?sv vh) (fold gl_do cs3 ?s2))"
    using w h del stp(1) draw(1)
    unfolding gui_run_def gui_fb_width_def gui_fb_height_def Let_def
    by (simp add: gui_backup_result gui_restore_def)
  have comp: "fold gl_do (gui_restore_calls ?sv vh) (fold gl_do cs3 ?s2)
        = fold gl_do (gui_backup_calls g @ (cs2 @ cs3) @ gui_restore_calls ?sv vh) s"
    by (simp only: fold_append comp_def)
  have r: "gui_run vao lay io (Some draw_data) g s =
             Inr (?g1, fold gl_do (gui_backup_calls g @ (cs2 @ cs3) @ gui_restore_calls ?sv vh) s)"
    unfolding run comp ..
  have d: "\<forall>sc tex. issued_draws sc tex (cs2 @ cs3)
       = map (cmd_draw (DisplayPos draw_data) ?fh)
           (filter (cmd_drawn (DisplayPos draw_data) ?fw ?fh) (all_cmds draw_data))"
  proof (intro allI)
    fix sc tex
    have "\<forall>c \<in> set cs2. \<not> is_DrawElements c"
      using stp(2) by blast
    from issued_draws_after [OF this draw(3)]
    show "issued_draws sc tex (cs2 @ cs3)
       = map (cmd_draw (DisplayPos draw_data) ?fh)
           (filter (cmd_drawn (DisplayPos draw_data) ?fw ?fh) (all_cmds draw_data))"
      unfolding all_cmds_def .
  qed
  have a: "\<forall>c \<in> set (cs2 @ cs3). \<not> is_ActiveTexture c"
    using stp(2) draw(2) by auto
  from r a d show ?thesis
    by blast
qed

subsection \<open>gui_run: the claims\<close>

lemma gui_backup_calls_state:
  "fold gl_do (gui_backup_calls g) s =
     s\<lparr>gl_active_unit := 0, gl_calls := gl_calls s @ gui_backup_calls g\<rparr>"
  by (simp add: gui_backup_calls_def)

lemma gui_run_null_entry_point:
  assumes "0 < gui_fb_width io draw_data" and "0 < gui_fb_height io draw_data"
    and "\<not> GL_has_GenVertexArrays (vao_gl vao)"
  shows "gui_run vao lay io (Some draw_data) g s = Inl NullFunctionCalled"
  using assms
  unfolding gui_run_def gui_fb_width_def gui_fb_height_def Let_def
  by (simp add: gui_backup_result gui_setup_def Let_def)

text \<open>
  Claim C1. A run of gui_run that passes the entry checks, on a context that has the
  vertex-array entry points and is in a valid state, returns, and a snapshot of the state
  after it equals the snapshot before it in every field: active texture unit, program,
  2D texture binding, array-buffer and vertex-array bindings, viewport, scissor box, the
  four blend factors, the two blend equations and the four enable flags. The texture
  bindings of all units are as before as well.
\<close>

theorem gui_run_state_isolation:
  assumes gen: "GL_has_GenVertexArrays (vao_gl vao)"
    and bind: "GL_has_BindVertexArray (vao_gl vao)"
    and del: "GL_has_DeleteVertexArrays (vao_gl vao)"
    and w: "0 < gui_fb_width io draw_data" and h: "0 < gui_fb_height io draw_data"
    and valid: "gl_valid s"
  shows "\<exists>g' s'. gui_run vao lay io (Some draw_data) g s = Inr (g', s')
           \<and> gl_snapshot s' = gl_snapshot s
           \<and> gl_texture_2d s' = gl_texture_2d s"
proof -
  let ?sv = "(gl_snapshot s)\<lparr>last_texture := gl_texture_2d s 0\<rparr>"
  obtain g' vh mid where
    run: "gui_run vao lay io (Some draw_data) g s =
            Inr (g', fold gl_do (gui_backup_calls g @ mid @ gui_restore_calls ?sv vh) s)"
    and mid: "\<forall>c \<in> set mid. \<not> is_ActiveTexture c"
    using gui_run_result [OF gen bind del w h, of lay g s] by blast
  let ?s1 = "fold gl_do (gui_backup_calls g) s"
  let ?t = "fold gl_do mid ?s1"
  let ?r = "fold gl_do (gui_restore_calls ?sv vh) ?t"
  have split: "fold gl_do (gui_backup_calls g @ mid @ gui_restore_calls ?sv vh) s = ?r"
    by (simp only: fold_append comp_def)
  have s1: "gl_active_unit ?s1 = 0" "gl_texture_2d ?s1 = gl_texture_2d s"
    by (simp_all add: gui_backup_calls_state)
  from fold_keeps_unit [OF mid, of ?s1] s1
  have unit: "gl_active_unit ?t = 0"
    and others: "\<forall>u. u \<noteq> 0 \<longrightarrow> gl_texture_2d ?t u = gl_texture_2d s u"
    by simp_all
  have act: "GL_TEXTURE0 \<le> last_active_texture ?sv"
    by (simp add: gl_snapshot_def)
  obtain vx vy vw vh' where vp: "gl_viewport s = (vx, vy, vw, vh')"
    by (metis prod_cases4)
  obtain sx sy sw sh where sc: "gl_scissor_box s = (sx, sy, sw, sh)"
    by (metis prod_cases4)
  from valid vp sc have nonneg: "0 \<le> vw" "0 \<le> vh'" "0 \<le> sw" "0 \<le> sh"
    by (simp_all add: gl_valid_def)
  have vp': "last_viewport ?sv = (vx, vy, vw, vh')"
    and sc': "last_scissor_box ?sv = (sx, sy, sw, sh)"
    using vp sc by (simp_all add: gl_snapshot_def)
  note rs = gui_restore_state [OF unit act vp' nonneg(1,2) sc' nonneg(3,4), of vh]
  have tex: "gl_texture_2d ?r = gl_texture_2d s"
  proof
    fix u
    show "gl_texture_2d ?r u = gl_texture_2d s u"
      using rs(3) others by (cases "u = 0") simp_all
  qed
  have unit': "gl_active_unit ?r = gl_active_unit s"
    using rs(1) by (simp add: gl_snapshot_def)
  have "gl_snapshot ?r = gl_snapshot s"
    unfolding gl_snapshot_def [of ?r]
    using rs(2) rs(4-17) tex unit'
    by (simp add: gl_snapshot_def)
  with run split tex show ?thesis
    by simp
qed

lemma example_facts:
  "GL_has_GenVertexArrays (vao_gl vao_caps_example)"
  "GL_has_BindVertexArray (vao_gl vao_caps_example)"
  "GL_has_DeleteVertexArrays (vao_gl vao_caps_example)"
  "gui_fb_width io_example draw_data_example = 800"
  "gui_fb_height io_example draw_data_example = 600"
  "gl_valid gl_in_use"
  by (simp_all add: vao_caps_example_def gl_all_caps_def gui_fb_width_def gui_fb_height_def
      io_example_def draw_data_example_def float_consts f32_eval gl_valid_def gl_in_use_def
      gl_initial_def)

theorem gui_run_state_isolation_witness:
  "GL_has_GenVertexArrays (vao_gl vao_caps_example)
   \<and> GL_has_BindVertexArray (vao_gl vao_caps_example)
   \<and> GL_has_DeleteVertexArrays (vao_gl vao_caps_example)
   \<and> 0 < gui_fb_width io_example draw_data_example
   \<and> 0 < gui_fb_height io_example draw_data_example
   \<and> gl_valid gl_in_use
   \<and> (\<exists>g' s'. gui_run vao_caps_example layout_example io_example (Some draw_data_example)
                  globals_example gl_in_use = Inr (g', s')
          \<and> gl_snapshot s' = gl_snapshot gl_in_use
          \<and> gl_get GL_ACTIVE_TEXTURE s' = GL_TEXTURE0 + 1
          \<and> gl_get GL_TEXTURE_BINDING_2D s' = 12
          \<and> gl_get4 GL_SCISSOR_BOX s' = (5, 5, 50, 50))"
proof -
  have w: "0 < gui_fb_width io_example draw_data_example"
    and h: "0 < gui_fb_height io_example draw_data_example"
    by (simp_all add: example_facts)
  obtain g' s' where
    run: "gui_run vao_caps_example layout_example io_example (Some draw_data_example)
            globals_example gl_in_use = Inr (g', s')"
    and snap: "gl_snapshot s' = gl_snapshot gl_in_use"
    using gui_run_state_isolation [OF example_facts(1-3) w h example_facts(6)] by blast
  have "last_active_texture (gl_snapshot s') = GL_TEXTURE0 + 1"
    "last_texture (gl_snapshot s') = 12"
    "last_scissor_box (gl_snapshot s') = (5, 5, 50, 50)"
    unfolding snap by (simp_all add: gl_snapshot_def gl_in_use_def gl_initial_def)
  then have "gl_get GL_ACTIVE_TEXTURE s' = GL_TEXTURE0 + 1"
    "gl_get GL_TEXTURE_BINDING_2D s' = 12"
    "gl_get4 GL_SCISSOR_BOX s' = (5, 5, 50, 50)"
    by (simp_all add: gl_snapshot_def)
  with run snap w h example_facts(1-3,6) show ?thesis
    by blast
qed

lemma gui_restore_calls_no_draw:
  "\<forall>c \<in> set (gui_restore_calls sv vao_handle). \<not> is_DrawElements c"
  by (simp add: gui_restore_calls_def split: prod.splits)

lemma gui_backup_calls_no_draw:
  "\<forall>c \<in> set (gui_backup_calls g). \<not> is_DrawElements c"
  by (simp add: gui_backup_calls_def)

lemma issued_draws_length:
  "length (issued_draws sc tex cs) = length (filter is_DrawElements cs)"
proof (induction cs arbitrary: sc tex)
  case Nil
  show ?case by simp
next
  case (Cons c cs)
  then show ?case by (cases c) simp_all
qed

lemma gui_run_draws:
  assumes gen: "GL_has_GenVertexArrays (vao_gl vao)"
    and bind: "GL_has_BindVertexArray (vao_gl vao)"
    and del: "GL_has_DeleteVertexArrays (vao_gl vao)"
    and w: "0 < gui_fb_width io draw_data" and h: "0 < gui_fb_height io draw_data"
  shows "\<exists>g' s'. gui_run vao lay io (Some draw_data) g s = Inr (g', s')
           \<and> (\<forall>sc tex. issued_draws sc tex (new_calls s s')
                 = map (cmd_draw (DisplayPos draw_data) (gui_fb_height io draw_data))
                     (filter (cmd_drawn (DisplayPos draw_data) (gui_fb_width io draw_data)
                                (gui_fb_height io draw_data))
                        (all_cmds draw_data)))"
proof -
  let ?ds = "map (cmd_draw (DisplayPos draw_data) (gui_fb_height io draw_data))
               (filter (cmd_drawn (DisplayPos draw_data) (gui_fb_width io draw_data)
                          (gui_fb_height io draw_data))
                  (all_cmds draw_data))"
  obtain g' sv vh mid where
    run: "gui_run vao lay io (Some draw_data) g s =
            Inr (g', fold gl_do (gui_backup_calls g @ mid @ gui_restore_calls sv vh) s)"
    and mid: "\<forall>sc tex. issued_draws sc tex mid = ?ds"
    using gui_run_result [OF gen bind del w h, of lay g s] by blast
  let ?s' = "fold gl_do (gui_backup_calls g @ mid @ gui_restore_calls sv vh) s"
  have new: "new_calls s ?s' = gui_backup_calls g @ mid @ gui_restore_calls sv vh"
    by (rule new_calls_fold)
  have rest: "\<forall>sc tex. issued_draws sc tex (gui_restore_calls sv vh) = []"
    using issued_draws_none [OF gui_restore_calls_no_draw] by blast
  have tail: "\<forall>sc tex. issued_draws sc tex (mid @ gui_restore_calls sv vh) = ?ds"
    using issued_draws_before [OF mid rest] by simp
  have "\<forall>sc tex. issued_draws sc tex (new_calls s ?s') = ?ds"
    unfolding new using issued_draws_after [OF gui_backup_calls_no_draw tail] by blast
  with run show ?thesis by blast
qed

text \<open>
  The run at 1920 by 1080 with scale \<^verbatim>\<open>0.9f\<close>: the framebuffer is 1728 by 972 and the one
  draw has the scissor (10, 872, 90, 90). At 800 by 600 a command with clip rectangle
  \<^verbatim>\<open>(0, 0, 100, 1e-5f)\<close> is drawn with the scissor (0, 600, 100, 0).
\<close>

lemma scaled_example_facts:
  "gui_fb_width io_scaled_example draw_data_scaled_example = 1728"
  "gui_fb_height io_scaled_example draw_data_scaled_example = 972"
  "cmd_drawn (DisplayPos draw_data_scaled_example) 1728 972 cmd_example"
  "cmd_draw (DisplayPos draw_data_scaled_example) 972 cmd_example = ((10, 872, 90, 90), 1, 6)"
  "cmd_drawn (DisplayPos draw_data_example) 800 600 cmd_thin_example"
  "cmd_draw (DisplayPos draw_data_example) 600 cmd_thin_example = ((0, 600, 100, 0), 1, 6)"
  by (simp_all add: gui_fb_width_def gui_fb_height_def io_scaled_example_def
      draw_data_scaled_example_def draw_data_example_def cmd_example_def cmd_thin_example_def
      cmd_drawn_def cmd_draw_def clip_accepted_def clip_scissor_def translated_clip_def
      float_consts float_09 float_1em5 f32_eval)

lemma gui_run_scaled_example:
  "\<exists>g' s'. gui_run vao_caps_example layout_example io_scaled_example
             (Some draw_data_scaled_example) globals_example gl_in_use = Inr (g', s')
     \<and> issued_draws (0, 0, 0, 0) 0 (new_calls gl_in_use s') = [((10, 872, 90, 90), 1, 6)]"
proof -
  have w: "0 < gui_fb_width io_scaled_example draw_data_scaled_example"
    and h: "0 < gui_fb_height io_scaled_example draw_data_scaled_example"
    by (simp_all add: scaled_example_facts)
  have cmds: "all_cmds draw_data_scaled_example = [cmd_example]"
    by (simp add: all_cmds_def draw_data_scaled_example_def draw_data_example_def)
  from gui_run_draws [OF example_facts(1-3) w h, of layout_example globals_example gl_in_use]
  show ?thesis
    unfolding scaled_example_facts(1,2) cmds
    using scaled_example_facts(3,4) by auto
qed

text \<open>
  Claim C2. A run past the entry checks issues, in the order of the commands, one draw
  call for exactly the commands that have no user callback and whose translated clip
  rectangle satisfies \<open>x < fb_width\<close>, \<open>y < fb_height\<close>, \<open>z \<ge> 0\<close> and \<open>w \<ge> 0\<close>; each draw is
  made with the scissor \<open>(x, fb_height - w, z - x, w - y)\<close>, the texture and the element
  count of its command. Translation, comparisons and differences are those of binary32, and
  each scissor component is cast to int. A rectangle outside the framebuffer rectangle is
  rejected, one with \<open>z == 0.0\<close> that passes the other three tests is accepted.
\<close>

theorem gui_run_clip_handling:
  assumes gen: "GL_has_GenVertexArrays (vao_gl vao)"
    and bind: "GL_has_BindVertexArray (vao_gl vao)"
    and del: "GL_has_DeleteVertexArrays (vao_gl vao)"
    and w: "0 < gui_fb_width io draw_data" and h: "0 < gui_fb_height io draw_data"
  shows "(\<exists>g' s'. gui_run vao lay io (Some draw_data) g s = Inr (g', s')
           \<and> (\<forall>sc tex. issued_draws sc tex (new_calls s s')
                 = map (cmd_draw (DisplayPos draw_data) (gui_fb_height io draw_data))
                     (filter (cmd_drawn (DisplayPos draw_data) (gui_fb_width io draw_data)
                                (gui_fb_height io draw_data))
                        (all_cmds draw_data)))
           \<and> length (filter is_DrawElements (new_calls s s'))
               = length (filter (cmd_drawn (DisplayPos draw_data) (gui_fb_width io draw_data)
                                   (gui_fb_height io draw_data))
                           (all_cmds draw_data)))
       \<and> (\<forall>c. cmd_drawn (DisplayPos draw_data) (gui_fb_width io draw_data)
                 (gui_fb_height io draw_data) c \<longleftrightarrow>
               UserCallback c = None
               \<and> f32_lt (ImVec4_x (translated_clip (DisplayPos draw_data) c))
                     (c_float_of_int (gui_fb_width io draw_data))
               \<and> f32_lt (ImVec4_y (translated_clip (DisplayPos draw_data) c))
                     (c_float_of_int (gui_fb_height io draw_data))
               \<and> f32_ge (ImVec4_z (translated_clip (DisplayPos draw_data) c)) f32_zero
               \<and> f32_ge (ImVec4_w (translated_clip (DisplayPos draw_data) c)) f32_zero)
       \<and> (\<forall>c. cmd_draw (DisplayPos draw_data) (gui_fb_height io draw_data) c =
               ((c_int_of_float (ImVec4_x (translated_clip (DisplayPos draw_data) c)),
                 c_int_of_float
                   (f32_sub (c_float_of_int (gui_fb_height io draw_data))
                      (ImVec4_w (translated_clip (DisplayPos draw_data) c))),
                 c_int_of_float
                   (f32_sub (ImVec4_z (translated_clip (DisplayPos draw_data) c))
                      (ImVec4_x (translated_clip (DisplayPos draw_data) c))),
                 c_int_of_float
                   (f32_sub (ImVec4_w (translated_clip (DisplayPos draw_data) c))
                      (ImVec4_y (translated_clip (DisplayPos draw_data) c)))),
                TextureId c, ElemCount c))
       \<and> (\<forall>clip. f32_lt (ImVec4_z clip) f32_zero \<or> f32_lt (ImVec4_w clip) f32_zero
                 \<or> f32_lt (c_float_of_int (gui_fb_width io draw_data)) (ImVec4_x clip)
                 \<or> f32_lt (c_float_of_int (gui_fb_height io draw_data)) (ImVec4_y clip)
               \<longrightarrow> \<not> clip_accepted (gui_fb_width io draw_data) (gui_fb_height io draw_data) clip)
       \<and> (\<forall>clip. f32_eq (ImVec4_z clip) f32_zero
                 \<and> f32_lt (ImVec4_x clip) (c_float_of_int (gui_fb_width io draw_data))
                 \<and> f32_lt (ImVec4_y clip) (c_float_of_int (gui_fb_height io draw_data))
                 \<and> f32_ge (ImVec4_w clip) f32_zero
               \<longrightarrow> clip_accepted (gui_fb_width io draw_data) (gui_fb_height io draw_data) clip)"
proof -
  obtain g' s' where run: "gui_run vao lay io (Some draw_data) g s = Inr (g', s')"
    and draws: "\<forall>sc tex. issued_draws sc tex (new_calls s s')
                 = map (cmd_draw (DisplayPos draw_data) (gui_fb_height io draw_data))
                     (filter (cmd_drawn (DisplayPos draw_data) (gui_fb_width io draw_data)
                                (gui_fb_height io draw_data))
                        (all_cmds draw_data))"
    using gui_run_draws [OF gen bind del w h, of lay g s] by blast
  have "length (filter is_DrawElements (new_calls s s'))
          = length (issued_draws (0, 0, 0, 0) 0 (new_calls s s'))"
    by (rule issued_draws_length [symmetric])
  also have "\<dots> = length (filter (cmd_drawn (DisplayPos draw_data) (gui_fb_width io draw_data)
                                   (gui_fb_height io draw_data)) (all_cmds draw_data))"
    using draws by simp
  finally have count: "length (filter is_DrawElements (new_calls s s'))
          = length (filter (cmd_drawn (DisplayPos draw_data) (gui_fb_width io draw_data)
                              (gui_fb_height io draw_data)) (all_cmds draw_data))" .
  have first: "\<exists>g' s'. gui_run vao lay io (Some draw_data) g s = Inr (g', s')
           \<and> (\<forall>sc tex. issued_draws sc tex (new_calls s s')
                 = map (cmd_draw (DisplayPos draw_data) (gui_fb_height io draw_data))
                     (filter (cmd_drawn (DisplayPos draw_data) (gui_fb_width io draw_data)
                                (gui_fb_height io draw_data))
                        (all_cmds draw_data)))
           \<and> length (filter is_DrawElements (new_calls s s'))
               = length (filter (cmd_drawn (DisplayPos draw_data) (gui_fb_width io draw_data)
                                   (gui_fb_height io draw_data))
                           (all_cmds draw_data))"
    using run draws count by blast
  show ?thesis
    by (intro conjI first allI impI)
       (auto simp: cmd_drawn_def clip_accepted_def cmd_draw_def clip_scissor_def
             dest: f32_order)
qed

theorem gui_run_clip_handling_witness:
  "GL_has_GenVertexArrays (vao_gl vao_caps_example)
   \<and> GL_has_BindVertexArray (vao_gl vao_caps_example)
   \<and> GL_has_DeleteVertexArrays (vao_gl vao_caps_example)
   \<and> 0 < gui_fb_width io_example draw_data_example
   \<and> 0 < gui_fb_height io_example draw_data_example
   \<and> (\<exists>g' s'. gui_run vao_caps_example layout_example io_example (Some draw_data_example)
                  globals_example gl_in_use = Inr (g', s')
          \<and> issued_draws (0, 0, 0, 0) 0 (new_calls gl_in_use s') = [((10, 500, 90, 90), 1, 6)]
          \<and> length (filter is_DrawElements (new_calls gl_in_use s')) = 1)"
proof -
  have w: "0 < gui_fb_width io_example draw_data_example"
    and h: "0 < gui_fb_height io_example draw_data_example"
    by (simp_all add: example_facts)
  have drawn: "cmd_drawn (DisplayPos draw_data_example) 800 600 cmd_example"
    by (simp add: cmd_drawn_def clip_accepted_def translated_clip_def cmd_example_def
        draw_data_example_def float_consts f32_eval)
  have draw: "cmd_draw (DisplayPos draw_data_example) 600 cmd_example = ((10, 500, 90, 90), 1, 6)"
    by (simp add: cmd_draw_def clip_scissor_def translated_clip_def cmd_example_def
        draw_data_example_def float_consts f32_eval)
  have cmds: "all_cmds draw_data_example = [cmd_example]"
    by (simp add: all_cmds_def draw_data_example_def)
  from gui_run_clip_handling [OF example_facts(1-3) w h, of layout_example globals_example gl_in_use]
  obtain g' s' where
    "gui_run vao_caps_example layout_example io_example (Some draw_data_example)
       globals_example gl_in_use = Inr (g', s')"
    "issued_draws (0, 0, 0, 0) 0 (new_calls gl_in_use s') = [((10, 500, 90, 90), 1, 6)]"
    "length (filter is_DrawElements (new_calls gl_in_use s')) = 1"
    unfolding example_facts(4,5) cmds using drawn draw by auto
  with w h example_facts(1-3) show ?thesis
    by blast
qed

text \<open>
  Claim C6 as stated fails: on both early returns gui_run hands back the state it was
  given, so the log gains no call; in particular the first query of the snapshot step is
  not issued, and neither is any restore call.
\<close>

theorem gui_run_early_return_counterexample:
  "gui_run vao_caps_example layout_example io_example None globals_example gl_in_use
     = Inr (globals_example, gl_in_use)
   \<and> gui_run vao_caps_example layout_example io_example (Some draw_data_empty)
         globals_example gl_in_use
       = Inr (globals_example, gl_in_use)
   \<and> new_calls gl_in_use gl_in_use = []
   \<and> GetIntegerv GL_ACTIVE_TEXTURE \<notin> set (new_calls gl_in_use gl_in_use)"
proof -
  have "gui_fb_width io_example draw_data_empty \<le> 0"
    by (simp add: gui_fb_width_def draw_data_empty_def io_example_def float_consts f32_eval)
  then show ?thesis
    by (simp add: gui_run_early new_calls_def)
qed

text \<open>
  Claim C6, amended. On an early return (no draw data, or a computed framebuffer width or
  height that is not positive) gui_run returns before the snapshot step: no call is issued
  and the state is the one passed in. On a run that passes the entry checks, with the
  vertex-array entry points present, the calls of the snapshot step are the first and the
  restore calls the last calls issued before gui_run returns.
\<close>

theorem gui_run_snapshot_restore_bracket:
  "gui_run vao lay io None g s = Inr (g, s)
   \<and> (gui_fb_width io draw_data \<le> 0 \<or> gui_fb_height io draw_data \<le> 0 \<longrightarrow>
        gui_run vao lay io (Some draw_data) g s = Inr (g, s))
   \<and> (GL_has_GenVertexArrays (vao_gl vao) \<and> GL_has_BindVertexArray (vao_gl vao)
        \<and> GL_has_DeleteVertexArrays (vao_gl vao)
        \<and> 0 < gui_fb_width io draw_data \<and> 0 < gui_fb_height io draw_data \<longrightarrow>
        (\<exists>g' s' mid vao_handle.
           gui_run vao lay io (Some draw_data) g s = Inr (g', s')
           \<and> new_calls s s' =
               gui_backup_calls g @ mid
               @ gui_restore_calls ((gl_snapshot s)\<lparr>last_texture := gl_texture_2d s 0\<rparr>)
                   vao_handle))"
proof (intro conjI impI)
  show "gui_run vao lay io None g s = Inr (g, s)"
    by (rule gui_run_early(1))
next
  assume "gui_fb_width io draw_data \<le> 0 \<or> gui_fb_height io draw_data \<le> 0"
  then show "gui_run vao lay io (Some draw_data) g s = Inr (g, s)"
    by (rule gui_run_early(2))
next
  assume a: "GL_has_GenVertexArrays (vao_gl vao) \<and> GL_has_BindVertexArray (vao_gl vao)
        \<and> GL_has_DeleteVertexArrays (vao_gl vao)
        \<and> 0 < gui_fb_width io draw_data \<and> 0 < gui_fb_height io draw_data"
  let ?sv = "(gl_snapshot s)\<lparr>last_texture := gl_texture_2d s 0\<rparr>"
  from a obtain g' vh mid where
    run: "gui_run vao lay io (Some draw_data) g s =
            Inr (g', fold gl_do (gui_backup_calls g @ mid @ gui_restore_calls ?sv vh) s)"
    using gui_run_result [of vao io draw_data lay g s] by blast
  have "new_calls s (fold gl_do (gui_backup_calls g @ mid @ gui_restore_calls ?sv vh) s)
          = gui_backup_calls g @ mid @ gui_restore_calls ?sv vh"
    by (rule new_calls_fold)
  with run show "\<exists>g' s' mid vao_handle.
           gui_run vao lay io (Some draw_data) g s = Inr (g', s')
           \<and> new_calls s s' = gui_backup_calls g @ mid @ gui_restore_calls ?sv vao_handle"
    by blast
qed

theorem gui_run_snapshot_restore_bracket_witness:
  "GL_has_GenVertexArrays (vao_gl vao_caps_example)
   \<and> GL_has_BindVertexArray (vao_gl vao_caps_example)
   \<and> GL_has_DeleteVertexArrays (vao_gl vao_caps_example)
   \<and> 0 < gui_fb_width io_example draw_data_example
   \<and> 0 < gui_fb_height io_example draw_data_example
   \<and> (\<exists>g' s' mid vao_handle.
         gui_run vao_caps_example layout_example io_example (Some draw_data_example)
           globals_example gl_in_use = Inr (g', s')
         \<and> new_calls gl_in_use s' =
             gui_backup_calls globals_example @ mid
             @ gui_restore_calls ((gl_snapshot gl_in_use)\<lparr>last_texture := 11\<rparr>) vao_handle)
   \<and> gui_fb_width io_example draw_data_empty \<le> 0
   \<and> gui_run vao_caps_example layout_example io_example (Some draw_data_empty)
         globals_example gl_in_use = Inr (globals_example, gl_in_use)"
proof -
  have w: "0 < gui_fb_width io_example draw_data_example"
    and h: "0 < gui_fb_height io_example draw_data_example"
    by (simp_all add: example_facts)
  have e: "gui_fb_width io_example draw_data_empty \<le> 0"
    by (simp add: gui_fb_width_def draw_data_empty_def io_example_def float_consts f32_eval)
  have t: "gl_texture_2d gl_in_use 0 = 11"
    by (simp add: gl_in_use_def)
  note inst = gui_run_snapshot_restore_bracket
    [of vao_caps_example layout_example io_example globals_example gl_in_use]
  from inst [of draw_data_example] w h example_facts(1-3)
  have "\<exists>g' s' mid vao_handle.
         gui_run vao_caps_example layout_example io_example (Some draw_data_example)
           globals_example gl_in_use = Inr (g', s')
         \<and> new_calls gl_in_use s' =
             gui_backup_calls globals_example @ mid
             @ gui_restore_calls ((gl_snapshot gl_in_use)\<lparr>last_texture := 11\<rparr>) vao_handle"
    unfolding t by blast
  moreover from inst [of draw_data_empty] e
  have "gui_run vao_caps_example layout_example io_example (Some draw_data_empty)
         globals_example gl_in_use = Inr (globals_example, gl_in_use)"
    by blast
  ultimately show ?thesis
    using w h e example_facts(1-3) by blast
qed

end
